theory Spec2Isabelle
  imports Main
begin

section \<open>Insight list mutation (pages/UnifiedSafetyDashboard.js)\<close>

text \<open>
  The page keeps two pieces of state that are addressed by the same index:
  \<^verbatim>\<open>aiAnalysis\<close>, which is \<^verbatim>\<open>null\<close> or an object with an \<^verbatim>\<open>insights\<close> array, and
  \<^verbatim>\<open>insightFeedback\<close>, a plain object written only by
  \<^verbatim>\<open>handleInsightFeedback(index, feedbackType)\<close> as \<^verbatim>\<open>{...prev, [index]: feedbackType}\<close>.

  A property name of the feedback object is either an array index (\<open>Idx\<close>) or a name
  for which \<^verbatim>\<open>Number(k)\<close> is \<^verbatim>\<open>NaN\<close> (\<open>Name\<close>); the object is the list of its own
  properties, each name occurring once. The state is an object at all times (it
  starts as \<^verbatim>\<open>{}\<close> and every updater returns one), so the first line of the updater in
  \<^verbatim>\<open>handleRemoveInsight\<close>, which answers \<^verbatim>\<open>{}\<close> to a state that is no object, is never
  taken.
\<close>

datatype fkey = Idx nat | Name string

type_synonym 'v feedback = "(fkey \<times> 'v) list"

text \<open>\<^verbatim>\<open>obj[key] = v\<close>: overwrite the property when it exists, add it otherwise.\<close>

primrec setProp :: "'k \<Rightarrow> 'v \<Rightarrow> ('k \<times> 'v) list \<Rightarrow> ('k \<times> 'v) list" where
  "setProp k v [] = [(k, v)]"
| "setProp k v (p # ps) = (if fst p = k then (k, v) # ps else p # setProp k v ps)"

text \<open>
  \<^verbatim>\<open>insights\<close> is \<open>None\<close> when the field is not an array
  (\<^verbatim>\<open>!Array.isArray(prev.insights)\<close>).
\<close>

record 'a analysis =
  insights :: "'a list option"

record ('a, 'v) page_state =
  aiAnalysis :: "'a analysis option"
  insightFeedback :: "'v feedback"

text \<open>\<^verbatim>\<open>prev.insights.filter((_, idx) => idx !== indexToRemove)\<close>\<close>

definition filterInsights :: "nat \<Rightarrow> 'a list \<Rightarrow> 'a list" where
  "filterInsights indexToRemove xs =
     map snd (filter (\<lambda>(idx, _). idx \<noteq> indexToRemove) (enumerate 0 xs))"

text \<open>The updater passed to \<^verbatim>\<open>setAiAnalysis\<close>.\<close>

definition removeFromAnalysis :: "nat \<Rightarrow> 'a analysis option \<Rightarrow> 'a analysis option" where
  "removeFromAnalysis indexToRemove prev =
     (case prev of
        None \<Rightarrow> prev
      | Some a \<Rightarrow>
          (case insights a of
             None \<Rightarrow> prev
           | Some xs \<Rightarrow> Some (a\<lparr>insights := Some (filterInsights indexToRemove xs)\<rparr>)))"

text \<open>
  The body of the \<^verbatim>\<open>forEach\<close> over \<^verbatim>\<open>Object.keys(prev)\<close>. For the property being
  visited \<^verbatim>\<open>prev[idx]\<close> reads back its own value, which is the \<open>v\<close> of the pair.
\<close>

definition reindexStep :: "nat \<Rightarrow> 'v feedback \<Rightarrow> fkey \<times> 'v \<Rightarrow> 'v feedback" where
  "reindexStep indexToRemove updated kv =
     (case fst kv of
        Name _ \<Rightarrow> updated
      | Idx idx \<Rightarrow>
          if idx < indexToRemove then setProp (Idx idx) (snd kv) updated
          else if idx > indexToRemove then setProp (Idx (idx - 1)) (snd kv) updated
          else updated)"

text \<open>The updater passed to \<^verbatim>\<open>setInsightFeedback\<close>; \<open>updated\<close> starts as \<^verbatim>\<open>{}\<close>.\<close>

definition reindexFeedback :: "nat \<Rightarrow> 'v feedback \<Rightarrow> 'v feedback" where
  "reindexFeedback indexToRemove prev = foldl (reindexStep indexToRemove) [] prev"

definition handleRemoveInsight :: "nat \<Rightarrow> ('a, 'v) page_state \<Rightarrow> ('a, 'v) page_state" where
  "handleRemoveInsight indexToRemove s =
     s\<lparr>aiAnalysis := removeFromAnalysis indexToRemove (aiAnalysis s),
       insightFeedback := reindexFeedback indexToRemove (insightFeedback s)\<rparr>"

text \<open>\<^verbatim>\<open>handleInsightFeedback\<close>: \<^verbatim>\<open>{...prev, [index]: feedbackType}\<close>.\<close>

definition handleInsightFeedback :: "nat \<Rightarrow> 'v \<Rightarrow> ('a, 'v) page_state \<Rightarrow> ('a, 'v) page_state" where
  "handleInsightFeedback index feedbackType s =
     s\<lparr>insightFeedback := setProp (Idx index) feedbackType (insightFeedback s)\<rparr>"

section \<open>JavaScript values\<close>

text \<open>
  A value produced by \<^verbatim>\<open>JSON.parse\<close>. An object is the list of its properties;
  a lookup takes the first pair with the name. Numbers are integers here. A
  JavaScript value that may be \<^verbatim>\<open>undefined\<close> is a \<open>json option\<close>.
\<close>

datatype json =
    JNull
  | JBool bool
  | JNum int
  | JStr string
  | JArr "json list"
  | JObj "(string \<times> json) list"

type_synonym jsval = "json option"

text \<open>Thrown values: an \<^verbatim>\<open>Error\<close> object with its \<^verbatim>\<open>name\<close> and \<^verbatim>\<open>message\<close>, or the
  error object axios rejects with (\<^verbatim>\<open>error.message\<close>, \<^verbatim>\<open>error.response.data\<close> when a
  response was received, whether \<^verbatim>\<open>error.request\<close> is set).\<close>

record axios_error =
  axMessage :: string
  axResponseData :: "json option"
  axRequest :: bool

datatype exn =
    Exn string string
  | AxiosError axios_error

definition Error :: "string \<Rightarrow> exn" where
  "Error m = Exn ''Error'' m"

definition TypeError :: "string \<Rightarrow> exn" where
  "TypeError m = Exn ''TypeError'' m"

definition SyntaxError :: "string \<Rightarrow> exn" where
  "SyntaxError m = Exn ''SyntaxError'' m"

text \<open>\<^verbatim>\<open>error.message\<close> and \<^verbatim>\<open>error.toString()\<close> (Error.prototype.toString).\<close>

fun errorMessage :: "exn \<Rightarrow> string" where
  "errorMessage (Exn n m) = m"
| "errorMessage (AxiosError e) = axMessage e"

fun errorName :: "exn \<Rightarrow> string" where
  "errorName (Exn n m) = n"
| "errorName (AxiosError e) = ''AxiosError''"

definition errorToString :: "exn \<Rightarrow> string" where
  "errorToString e =
     (if errorMessage e = [] then errorName e
      else if errorName e = [] then errorMessage e
      else errorName e @ '': '' @ errorMessage e)"

text \<open>
  The functions of the platform the code calls: \<^verbatim>\<open>JSON.parse\<close> (\<open>None\<close> when it
  throws a SyntaxError), \<^verbatim>\<open>JSON.stringify\<close>, and the string conversion of a value
  that is not a string and has one (as \<^verbatim>\<open>new Error(v)\<close> and \<^verbatim>\<open>obj[v]\<close> apply to
  \<open>v\<close>).
\<close>

record platform =
  JSON_parse :: "string \<Rightarrow> json option"
  JSON_stringify :: "json \<Rightarrow> string"
  ToString :: "json \<Rightarrow> string"

definition parseJSON :: "platform \<Rightarrow> string \<Rightarrow> exn + json" where
  "parseJSON pf s =
     (case JSON_parse pf s of
        None \<Rightarrow> Inl (SyntaxError ''Unexpected token'')
      | Some v \<Rightarrow> Inr v)"

text \<open>
  The conversion of a parsed value to a primitive, which the conversions to a
  string and to a number start for an object or an array: it throws a TypeError
  when neither \<^verbatim>\<open>toString\<close> nor \<^verbatim>\<open>valueOf\<close> gives a primitive. The inherited
  \<^verbatim>\<open>valueOf\<close> returns the object itself; the inherited \<^verbatim>\<open>toString\<close> gives a string
  for an object and joins the elements of an array, converting each of them; a
  member \<^verbatim>\<open>toString\<close> of a parsed object hides the inherited one and is no function.
\<close>

fun throwsToPrimitive :: "json \<Rightarrow> bool" where
  "throwsToPrimitive (JObj ps) = (map_of ps ''toString'' \<noteq> None)"
| "throwsToPrimitive (JArr xs) = list_ex throwsToPrimitive xs"
| "throwsToPrimitive _ = False"

definition conversionError :: exn where
  "conversionError = TypeError ''Cannot convert object to primitive value''"

text \<open>\<^verbatim>\<open>String(v)\<close> where the conversion returns; \<^verbatim>\<open>undefined\<close> as the argument of
  \<^verbatim>\<open>new Error\<close> leaves the message empty.\<close>

definition toStringJs :: "platform \<Rightarrow> jsval \<Rightarrow> string" where
  "toStringJs pf v =
     (case v of
        None \<Rightarrow> []
      | Some (JStr s) \<Rightarrow> s
      | Some w \<Rightarrow> ToString pf w)"

text \<open>What \<^verbatim>\<open>throw new Error(message)\<close> throws: the constructor converts the message
  to a string, and where that conversion throws, its TypeError takes the place of
  the new error.\<close>

definition newError :: "platform \<Rightarrow> jsval \<Rightarrow> exn" where
  "newError pf message =
     (case message of
        None \<Rightarrow> Error []
      | Some w \<Rightarrow> if throwsToPrimitive w then conversionError else Error (toStringJs pf message))"

text \<open>Truthiness.\<close>

fun truthy :: "json \<Rightarrow> bool" where
  "truthy JNull = False"
| "truthy (JBool b) = b"
| "truthy (JNum n) = (n \<noteq> 0)"
| "truthy (JStr s) = (s \<noteq> [])"
| "truthy (JArr xs) = True"
| "truthy (JObj ps) = True"

definition truthyV :: "jsval \<Rightarrow> bool" where
  "truthyV v = (case v of None \<Rightarrow> False | Some w \<Rightarrow> truthy w)"

text \<open>\<^verbatim>\<open>a || b\<close>\<close>

definition jsOr :: "jsval \<Rightarrow> jsval \<Rightarrow> jsval" where
  "jsOr a b = (if truthyV a then a else b)"

text \<open>
  \<^verbatim>\<open>v.name\<close> on a value that is neither \<^verbatim>\<open>null\<close> nor \<^verbatim>\<open>undefined\<close>, for the property
  names this code reads (none of them is a member of a prototype): only an object
  has them.
\<close>

fun readProp :: "json \<Rightarrow> string \<Rightarrow> jsval" where
  "readProp (JObj ps) name = map_of ps name"
| "readProp _ name = None"

text \<open>\<^verbatim>\<open>v?.name\<close>\<close>

definition optProp :: "jsval \<Rightarrow> string \<Rightarrow> jsval" where
  "optProp v name =
     (case v of
        None \<Rightarrow> None
      | Some JNull \<Rightarrow> None
      | Some w \<Rightarrow> readProp w name)"

text \<open>\<^verbatim>\<open>v.name\<close>: a TypeError on \<^verbatim>\<open>null\<close> and \<^verbatim>\<open>undefined\<close>.\<close>

definition getProp :: "jsval \<Rightarrow> string \<Rightarrow> exn + jsval" where
  "getProp v name =
     (case v of
        None \<Rightarrow> Inl (TypeError ''Cannot read properties of undefined'')
      | Some JNull \<Rightarrow> Inl (TypeError ''Cannot read properties of null'')
      | Some w \<Rightarrow> Inr (readProp w name))"

definition typeofObject :: "jsval \<Rightarrow> bool" where
  "typeofObject v =
     (case v of
        Some JNull \<Rightarrow> True
      | Some (JArr xs) \<Rightarrow> True
      | Some (JObj ps) \<Rightarrow> True
      | _ \<Rightarrow> False)"

text \<open>\<^verbatim>\<open>try { body } catch (e) { handler(e) }\<close>\<close>

definition tryCatch :: "exn + 'a \<Rightarrow> (exn \<Rightarrow> exn + 'a) \<Rightarrow> exn + 'a" where
  "tryCatch body handler = (case body of Inl e \<Rightarrow> handler e | Inr v \<Rightarrow> Inr v)"

text \<open>Sequencing of steps that may throw: the first exception ends the sequence.\<close>

definition bindE :: "exn + 'a \<Rightarrow> ('a \<Rightarrow> exn + 'b) \<Rightarrow> exn + 'b" where
  "bindE m f = (case m of Inl e \<Rightarrow> Inl e | Inr v \<Rightarrow> f v)"



text \<open>Decimal digits of an array index, for the property names of a spread array.\<close>

fun showNat :: "nat \<Rightarrow> string" where
  "showNat n =
     (if n < 10 then [char_of (48 + n)]
      else showNat (n div 10) @ [char_of (48 + n mod 10)])"

declare showNat.simps [simp del]

text \<open>\<^verbatim>\<open>{...v}\<close>: the own enumerable properties of \<open>v\<close>.\<close>

fun spread :: "json \<Rightarrow> (string \<times> json) list" where
  "spread (JObj ps) = ps"
| "spread (JArr xs) = zip (map showNat [0..<length xs]) xs"
| "spread (JStr s) = zip (map showNat [0..<length s]) (map (\<lambda>c. JStr [c]) s)"
| "spread _ = []"

section \<open>The API service (services/api.js)\<close>

subsection \<open>The axios instance and its response interceptor\<close>

text \<open>What an HTTP call through axios ends with: the response, or the error axios
  rejects with.\<close>

datatype axios_outcome =
    Fulfilled json
  | Rejected axios_error

text \<open>
  The second function of \<^verbatim>\<open>api.interceptors.response.use\<close>: it always throws a new
  \<^verbatim>\<open>Error\<close>.
\<close>

definition responseRejected :: "platform \<Rightarrow> axios_error \<Rightarrow> exn" where
  "responseRejected pf error =
     (case axResponseData error of
        Some data \<Rightarrow>
          newError pf
            (jsOr (jsOr (optProp (Some data) ''detail'') (optProp (Some data) ''error''))
                  (Some (JStr ''Server error occurred'')))
      | None \<Rightarrow>
          if axRequest error
          then newError pf (Some (JStr ''Network error - please check your connection''))
          else newError pf (Some (JStr ''An unexpected error occurred'')))"

text \<open>A call through the instance \<^verbatim>\<open>api\<close>: the first interceptor function returns
  \<^verbatim>\<open>response.data\<close>, the second one throws.\<close>

definition apiCall :: "platform \<Rightarrow> axios_outcome \<Rightarrow> exn + json" where
  "apiCall pf outcome =
     (case outcome of
        Fulfilled data \<Rightarrow> Inr data
      | Rejected error \<Rightarrow> Inl (responseRejected pf error))"

subsection \<open>Methods that return the call as it is\<close>





subsection \<open>Helpers of the service\<close>

text \<open>\<^verbatim>\<open>extractTextFromResponse\<close>\<close>

definition extractTextFromResponse :: "platform \<Rightarrow> jsval \<Rightarrow> jsval" where
  "extractTextFromResponse pf response =
     (case response of
        Some (JStr s) \<Rightarrow> Some (JStr s)
      | Some (JObj ps) \<Rightarrow>
          if ''text'' \<in> fst ` set ps then map_of ps ''text''
          else if ''content'' \<in> fst ` set ps then map_of ps ''content''
          else if ''message'' \<in> fst ` set ps then map_of ps ''message''
          else Some (JStr (JSON_stringify pf (JObj ps)))
      | Some (JArr xs) \<Rightarrow> Some (JStr (JSON_stringify pf (JArr xs)))
      | _ \<Rightarrow> Some JNull)"

text \<open>\<^verbatim>\<open>sanitizeChartData\<close>\<close>

definition sanitizeChartData :: "json \<Rightarrow> json" where
  "sanitizeChartData chartData =
     (if \<not> truthy chartData \<or> \<not> typeofObject (Some chartData) then chartData
      else
        let sanitized = spread chartData;
            title = map_of sanitized ''title'';
            titleText = (if truthyV title \<and> typeofObject title
                         then optProp title ''text'' else None)
        in case (if truthyV titleText then titleText else None) of
             Some text \<Rightarrow> JObj (setProp ''displayTitle'' text sanitized)
           | None \<Rightarrow>
               (case title of
                  Some (JStr t) \<Rightarrow> JObj (setProp ''displayTitle'' (JStr t) sanitized)
                | _ \<Rightarrow> JObj sanitized))"

subsection \<open>sendChatMessage\<close>

text \<open>The object \<^verbatim>\<open>sendChatMessage\<close> resolves with; a field that the returned object
  literal does not have is \<open>None\<close>.\<close>

record chat_response =
  success :: bool
  message :: jsval
  resp_data_context :: jsval
  resp_chart_data :: jsval
  sql_query :: jsval
  suggested_actions :: "string list option"
  error :: jsval

text \<open>The body of the first inner \<^verbatim>\<open>try\<close>: \<^verbatim>\<open>dataContext\<close> from \<^verbatim>\<open>response?.query_result\<close>.\<close>

definition dataContextOf :: "platform \<Rightarrow> json \<Rightarrow> exn + json" where
  "dataContextOf pf response =
     (case optProp (Some response) ''query_result'' of
        Some (JStr s) \<Rightarrow> parseJSON pf s
      | Some v \<Rightarrow> if truthy v then Inr v else Inr JNull
      | None \<Rightarrow> Inr JNull)"

text \<open>
  The method reaches its helpers through \<^verbatim>\<open>this\<close>. Called on the service instance
  \<^verbatim>\<open>this\<close> is the service; called by the name the module also exports
  (\<^verbatim>\<open>export const { ..., sendChatMessage, ... } = apiService\<close>) the function runs
  with \<^verbatim>\<open>this\<close> undefined, and reading a method from it throws.
\<close>

datatype receiver = OnService | Unbound

fun thisMethod :: "receiver \<Rightarrow> exn + unit" where
  "thisMethod OnService = Inr ()"
| "thisMethod Unbound = Inl (TypeError ''Cannot read properties of undefined'')"

text \<open>The body of the second inner \<^verbatim>\<open>try\<close>, entered when
  \<^verbatim>\<open>response?.visualization_data\<close> is truthy.\<close>

definition chartDataOf :: "receiver \<Rightarrow> platform \<Rightarrow> json \<Rightarrow> exn + json" where
  "chartDataOf this pf visualization_data =
     bindE (case visualization_data of
              JStr s \<Rightarrow> parseJSON pf s
            | v \<Rightarrow> Inr v) (\<lambda>rawChartData.
     bindE (thisMethod this) (\<lambda>_.
     Inr (sanitizeChartData rawChartData)))"

definition suggestedActions :: "string list" where
  "suggestedActions =
     [''How many days of work were lost due to an unsafe event?'',
      ''Create a graph showing a trend of incidents reported in SR1, SR2, NR1 and NR2 for the last three months.'',
      ''Which hazards are commonly occurring in all regions?'',
      ''Are there any recurring patterns observed for the unsafe events reported this year?'',
      ''Which region has reported the most number of unsafe events?'']"

text \<open>The outer \<^verbatim>\<open>try\<close> block.\<close>

definition sendChatMessageTry :: "receiver \<Rightarrow> platform \<Rightarrow> axios_outcome \<Rightarrow> exn + chat_response" where
  "sendChatMessageTry this pf outcome =
     bindE (apiCall pf outcome) (\<lambda>response.
     bindE (tryCatch (dataContextOf pf response) (\<lambda>e. Inr JNull)) (\<lambda>dataContext.
     bindE (case optProp (Some response) ''visualization_data'' of
              None \<Rightarrow> Inr JNull
            | Some vd \<Rightarrow>
                if truthy vd then tryCatch (chartDataOf this pf vd) (\<lambda>e. Inr JNull)
                else Inr JNull) (\<lambda>chartData.
     bindE (thisMethod this) (\<lambda>_.
     Inr \<lparr>success = True,
          message = jsOr (extractTextFromResponse pf (optProp (Some response) ''final_answer''))
                         (Some (JStr ''No response available'')),
          resp_data_context = Some dataContext,
          resp_chart_data = Some chartData,
          sql_query = jsOr (optProp (Some response) ''sql_query'') (Some JNull),
          suggested_actions = Some suggestedActions,
          error = None\<rparr>))))"

text \<open>The outer \<^verbatim>\<open>catch\<close> block.\<close>

definition sendChatMessageCatch :: "receiver \<Rightarrow> platform \<Rightarrow> exn \<Rightarrow> exn + chat_response" where
  "sendChatMessageCatch this pf err =
     bindE (thisMethod this) (\<lambda>_.
     Inr \<lparr>success = False,
          message = jsOr (extractTextFromResponse pf (Some (JStr (errorMessage err))))
                         (Some (JStr ''Sorry, I encountered an error processing your request. Please try again.'')),
          resp_data_context = None,
          resp_chart_data = None,
          sql_query = None,
          suggested_actions = None,
          error = jsOr (extractTextFromResponse pf (Some (JStr (errorMessage err))))
                       (Some (JStr (errorToString err)))\<rparr>)"

definition sendChatMessage :: "receiver \<Rightarrow> platform \<Rightarrow> axios_outcome \<Rightarrow> exn + chat_response" where
  "sendChatMessage this pf outcome =
     tryCatch (sendChatMessageTry this pf outcome) (sendChatMessageCatch this pf)"

subsection \<open>Chart bookmarks\<close>



subsection \<open>uploadAndAnalyzeFile\<close>

text \<open>What \<^verbatim>\<open>fetch\<close> ends with: a response (\<^verbatim>\<open>response.ok\<close> and the text of its
  body, which \<^verbatim>\<open>response.json()\<close> parses), or a rejection.\<close>

record fetch_response =
  ok :: bool
  body :: string

datatype fetch_outcome =
    FetchResolved fetch_response
  | FetchRejected exn

text \<open>The inner \<^verbatim>\<open>try\<close> of the failure branch: \<^verbatim>\<open>message = errorData.detail || message\<close>,
  with parse and access errors ignored.\<close>

definition uploadFailureMessage :: "platform \<Rightarrow> fetch_response \<Rightarrow> jsval" where
  "uploadFailureMessage pf response =
     (case tryCatch
             (bindE (parseJSON pf (body response)) (\<lambda>errorData.
              bindE (getProp (Some errorData) ''detail'') (\<lambda>detail.
              Inr (jsOr detail (Some (JStr ''File upload failed''))))))
             (\<lambda>_. Inr (Some (JStr ''File upload failed''))) of
        Inr m \<Rightarrow> m
      | Inl _ \<Rightarrow> Some (JStr ''File upload failed''))"

definition uploadAndAnalyzeFile :: "platform \<Rightarrow> fetch_outcome \<Rightarrow> exn + json" where
  "uploadAndAnalyzeFile pf outcome =
     tryCatch
       (case outcome of
          FetchRejected e \<Rightarrow> Inl e
        | FetchResolved response \<Rightarrow>
            if \<not> ok response then Inl (newError pf (uploadFailureMessage pf response))
            else parseJSON pf (body response))
       (\<lambda>error. Inl error)"

text \<open>The \<^verbatim>\<open>detail\<close> of an error body that \<^verbatim>\<open>errorData.detail || message\<close> keeps: the
  body parses, is not \<^verbatim>\<open>null\<close>, and has a truthy \<^verbatim>\<open>detail\<close>.\<close>

definition keptDetail :: "platform \<Rightarrow> fetch_response \<Rightarrow> json option" where
  "keptDetail pf response =
     (case JSON_parse pf (body response) of
        None \<Rightarrow> None
      | Some errorData \<Rightarrow>
          (case readProp errorData ''detail'' of
             None \<Rightarrow> None
           | Some d \<Rightarrow> if truthy d then Some d else None))"

section \<open>The older API module (the object \<^verbatim>\<open>api\<close> over plain axios)\<close>






section \<open>The streaming chat driver (startChatStream in services/api.js)\<close>

subsection \<open>String operations\<close>

text \<open>
  The decoded text is a list of characters. \<^verbatim>\<open>String.prototype.trim\<close> removes white
  space and line terminators; among the characters below 256 these are tab, line
  feed, vertical tab, form feed, carriage return, space and no-break space.
\<close>

definition newline :: char where
  "newline = CHR 0x0A"

definition isWhitespace :: "char \<Rightarrow> bool" where
  "isWhitespace c =
     (c \<in> {CHR 0x09, CHR 0x0A, CHR 0x0B, CHR 0x0C, CHR 0x0D, CHR 0x20, CHR 0xA0})"

definition trim :: "string \<Rightarrow> string" where
  "trim s = rev (dropWhile isWhitespace (rev (dropWhile isWhitespace s)))"

text \<open>\<^verbatim>\<open>buffer.indexOf('\n\n')\<close>, with \<open>None\<close> for \<^verbatim>\<open>-1\<close>.\<close>

fun indexOfSep :: "string \<Rightarrow> nat option" where
  "indexOfSep (a # b # cs) =
     (if a = newline \<and> b = newline then Some 0
      else map_option Suc (indexOfSep (b # cs)))"
| "indexOfSep _ = None"

text \<open>\<^verbatim>\<open>s.split('\n')\<close>\<close>

fun splitLines :: "string \<Rightarrow> string list" where
  "splitLines [] = [[]]"
| "splitLines (c # cs) =
     (if c = newline then [] # splitLines cs
      else (case splitLines cs of
              l # ls \<Rightarrow> (c # l) # ls
            | [] \<Rightarrow> [[c]]))"

text \<open>\<^verbatim>\<open>l.startsWith('data: ')\<close>\<close>

definition startsWithData :: "string \<Rightarrow> bool" where
  "startsWithData l = (take 6 l = ''data: '')"

subsection \<open>Callbacks and what the driver does to them\<close>

text \<open>
  A callback is what calling it does to the driver: it returns (\<open>None\<close>) or throws.
  \<^verbatim>\<open>onEvent\<close> and \<^verbatim>\<open>onError\<close> may be left out by the caller. The driver's run is the
  sequence of its calls to the outside: \<^verbatim>\<open>onEvent(evt)\<close>, \<^verbatim>\<open>console.warn\<close> with the
  text that failed, and \<^verbatim>\<open>onError(err)\<close>.
\<close>

type_synonym callback = "json \<Rightarrow> exn option"

datatype effect =
    OnEvent json
  | Warn string
  | OnError exn

text \<open>The \<^verbatim>\<open>try\<close> block around \<^verbatim>\<open>JSON.parse\<close> and \<^verbatim>\<open>onEvent && onEvent(evt)\<close>: the calls
  made, and the exception that ended the block, if any.\<close>

definition tryDispatch :: "platform \<Rightarrow> callback option \<Rightarrow> string \<Rightarrow> effect list \<times> exn option" where
  "tryDispatch pf onEvent jsonStr =
     (case parseJSON pf jsonStr of
        Inl e \<Rightarrow> ([], Some e)
      | Inr evt \<Rightarrow>
          (case onEvent of
             None \<Rightarrow> ([], None)
           | Some cb \<Rightarrow> ([OnEvent evt], cb evt)))"

text \<open>The block with its \<^verbatim>\<open>catch\<close>, which warns and goes on.\<close>

definition dispatchDataLine :: "platform \<Rightarrow> callback option \<Rightarrow> string \<Rightarrow> effect list" where
  "dispatchDataLine pf onEvent jsonStr =
     (case tryDispatch pf onEvent jsonStr of
        (effs, None) \<Rightarrow> effs
      | (effs, Some e) \<Rightarrow> effs @ [Warn jsonStr])"

text \<open>The body of the inner loop for one trimmed frame \<^verbatim>\<open>sseChunk\<close>.\<close>

definition dispatchChunk :: "platform \<Rightarrow> callback option \<Rightarrow> string \<Rightarrow> effect list" where
  "dispatchChunk pf onEvent sseChunk =
     (if sseChunk = [] then []
      else (case find startsWithData (splitLines sseChunk) of
              None \<Rightarrow> []
            | Some dataLine \<Rightarrow> dispatchDataLine pf onEvent (drop 6 dataLine)))"

text \<open>The inner loop \<^verbatim>\<open>while ((sepIndex = buffer.indexOf('\n\n')) !== -1)\<close>: the calls
  made and the buffer that is left.\<close>

function drainBuffer :: "platform \<Rightarrow> callback option \<Rightarrow> string \<Rightarrow> effect list \<times> string" where
  "drainBuffer pf onEvent buffer =
     (case indexOfSep buffer of
        None \<Rightarrow> ([], buffer)
      | Some sepIndex \<Rightarrow>
          (let sseChunk = trim (take sepIndex buffer);
               rest = drainBuffer pf onEvent (drop (sepIndex + 2) buffer)
           in (dispatchChunk pf onEvent sseChunk @ fst rest, snd rest)))"
  by pat_completeness auto
termination
proof -
  have bound: "i + 2 \<le> length s" if "indexOfSep s = Some i" for s i
    using that by (induction s arbitrary: i rule: indexOfSep.induct) (auto split: if_splits)
  show ?thesis
    by (relation "measure (\<lambda>(pf, onEvent, buffer). length buffer)") (auto dest: bound)
qed

declare drainBuffer.simps [simp del]

text \<open>
  What \<^verbatim>\<open>await reader.read()\<close> gives: a chunk of text (after the decoder), the end of
  the body, or a rejection (a transport failure, or the abort of \<^verbatim>\<open>cancel()\<close>).
\<close>

datatype read_result =
    Chunk string
  | Done
  | ReadFailed exn

text \<open>How the outer loop \<^verbatim>\<open>while (true)\<close> stands after the reads delivered so far:
  waiting for the next read, left by \<^verbatim>\<open>break\<close>, or left by an exception.\<close>

datatype loop_end =
    Pending
  | Completed
  | Raised exn

fun readLoop :: "platform \<Rightarrow> callback option \<Rightarrow> read_result list \<Rightarrow> string \<Rightarrow> effect list \<times> loop_end" where
  "readLoop pf onEvent [] buffer = ([], Pending)"
| "readLoop pf onEvent (Done # rs) buffer = ([], Completed)"
| "readLoop pf onEvent (ReadFailed e # rs) buffer = ([], Raised e)"
| "readLoop pf onEvent (Chunk v # rs) buffer =
     (let drained = drainBuffer pf onEvent (buffer @ v);
          rest = readLoop pf onEvent rs (snd drained)
      in (fst drained @ fst rest, snd rest))"

text \<open>What \<^verbatim>\<open>await fetch(url, ...)\<close> gives: a response (\<^verbatim>\<open>resp.ok\<close>, \<^verbatim>\<open>resp.status\<close>,
  whether \<^verbatim>\<open>resp.body\<close> is there) or a rejection.\<close>

record stream_response =
  respOk :: bool
  respStatus :: nat
  respHasBody :: bool

datatype stream_fetch =
    StreamResponse stream_response
  | StreamRejected exn

text \<open>The \<^verbatim>\<open>catch (err)\<close> of \<^verbatim>\<open>run\<close>: \<^verbatim>\<open>if (onError) onError(err)\<close>.\<close>

definition catchRun :: "bool \<Rightarrow> exn \<Rightarrow> effect list" where
  "catchRun onError err = (if onError then [OnError err] else [])"

text \<open>\<^verbatim>\<open>startChatStream(message, onEvent, onError)\<close>: the calls that \<^verbatim>\<open>run()\<close> makes, given
  what the fetch and the reads deliver.\<close>

definition startChatStream ::
  "platform \<Rightarrow> callback option \<Rightarrow> bool \<Rightarrow> stream_fetch \<Rightarrow> read_result list \<Rightarrow> effect list" where
  "startChatStream pf onEvent onError fetched reads =
     (case fetched of
        StreamRejected err \<Rightarrow> catchRun onError err
      | StreamResponse resp \<Rightarrow>
          if \<not> respOk resp \<or> \<not> respHasBody resp
          then catchRun onError
                 (Error (''Stream failed with status '' @ showNat (respStatus resp)))
          else (case readLoop pf onEvent reads [] of
                  (effs, Raised err) \<Rightarrow> effs @ catchRun onError err
                | (effs, _) \<Rightarrow> effs))"

subsection \<open>Reading a run\<close>

text \<open>The events handed to \<^verbatim>\<open>onEvent\<close> in a run.\<close>

fun dispatched :: "effect list \<Rightarrow> json list" where
  "dispatched [] = []"
| "dispatched (OnEvent evt # es) = evt # dispatched es"
| "dispatched (e # es) = dispatched es"

text \<open>How often \<^verbatim>\<open>onError\<close> is called in a run.\<close>

fun errorCalls :: "effect list \<Rightarrow> nat" where
  "errorCalls [] = 0"
| "errorCalls (OnError err # es) = Suc (errorCalls es)"
| "errorCalls (e # es) = errorCalls es"

subsection \<open>Frames\<close>






section \<open>The chat widget (components/chatbot/ChatBot.js)\<close>

datatype role = User | Assistant

text \<open>A message of the transcript, without \<^verbatim>\<open>id\<close> and \<^verbatim>\<open>timestamp\<close> (both read the
  clock).\<close>

record chat_message =
  role :: role
  content :: json
  data_context :: jsval
  chart_data :: jsval
  isError :: bool

text \<open>The state of the component; \<open>speechQueue\<close> holds the texts handed to
  \<^verbatim>\<open>setTimeout(() => speakText(...), 500)\<close>.\<close>

record chat_state =
  messages :: "chat_message list"
  isLoading :: bool
  isTyping :: bool
  progressSteps :: "json list"
  hasNewMessage :: bool
  isOpen :: bool
  speechEnabled :: bool
  speechQueue :: "json list"

definition labelMap :: "(string \<times> string) list" where
  "labelMap =
     [(''intent_classification'', ''Understanding your request''),
      (''greeting'', ''Responding''),
      (''text_to_sql'', ''Finding the right data''),
      (''execute_sql_query'', ''Pulling data''),
      (''summarizer'', ''Summarizing insights''),
      (''clarification_agent'', ''Need more details''),
      (''visualization'', ''Building chart'')]"

text \<open>\<^verbatim>\<open>labelMap[node] || node\<close>; the property name is the string conversion of
  \<^verbatim>\<open>node\<close>, which may throw. Names of members of \<^verbatim>\<open>Object.prototype\<close> are not
  modelled.\<close>

definition labelOf :: "platform \<Rightarrow> json \<Rightarrow> exn + json" where
  "labelOf pf node =
     (if throwsToPrimitive node then Inl conversionError
      else (case map_of labelMap (toStringJs pf (Some node)) of
              Some l \<Rightarrow> Inr (JStr l)
            | None \<Rightarrow> Inr node))"

text \<open>\<^verbatim>\<open>a === b\<close> for a stored label and a new one: equal values of a primitive type;
  an array or object of a newly parsed event is identical to no other value.\<close>

fun strictEq :: "json \<Rightarrow> json \<Rightarrow> bool" where
  "strictEq (JArr xs) b = False"
| "strictEq (JObj ps) b = False"
| "strictEq a b = (a = b)"

text \<open>The updater of \<^verbatim>\<open>setProgressSteps\<close> in the \<^verbatim>\<open>node_update\<close> branch.\<close>

definition pushStep :: "json \<Rightarrow> json list \<Rightarrow> json list" where
  "pushStep label prev =
     (if prev \<noteq> [] \<and> strictEq (last prev) label then prev else prev @ [label])"

definition jsOrNull :: "jsval \<Rightarrow> json" where
  "jsOrNull v = (case jsOr v (Some JNull) of Some w \<Rightarrow> w | None \<Rightarrow> JNull)"

text \<open>The assistant message built in the \<^verbatim>\<open>final\<close> branch from \<^verbatim>\<open>data = evt.data || {}\<close>.\<close>

definition streamedAnswerOf :: "json \<Rightarrow> json" where
  "streamedAnswerOf dat =
     (case jsOr (readProp dat ''final_answer'') (Some (JStr [])) of
        Some a \<Rightarrow> a
      | None \<Rightarrow> JStr [])"

definition aiMessage :: "json \<Rightarrow> chat_message" where
  "aiMessage dat =
     \<lparr>role = Assistant,
      content = (if truthy (streamedAnswerOf dat) then streamedAnswerOf dat
                 else JStr ''No response message''),
      data_context = Some (jsOrNull (readProp dat ''query_result'')),
      chart_data = Some (sanitizeChartData (jsOrNull (readProp dat ''visualization_data''))),
      isError = False\<rparr>"

definition eventData :: "json \<Rightarrow> json" where
  "eventData evt =
     (case jsOr (readProp evt ''data'') (Some (JObj [])) of
        Some d \<Rightarrow> d
      | None \<Rightarrow> JObj [])"

text \<open>\<^verbatim>\<open>const node = evt?.node || evt?.data?.node\<close>\<close>

definition nodeOf :: "json \<Rightarrow> jsval" where
  "nodeOf evt =
     jsOr (optProp (Some evt) ''node'') (optProp (optProp (Some evt) ''data'') ''node'')"

text \<open>
  The event callback given to \<^verbatim>\<open>startChatStream\<close>: the state it leaves. It reads
  \<^verbatim>\<open>isOpen\<close> and \<^verbatim>\<open>speechEnabled\<close> as they were when \<^verbatim>\<open>handleSendMessage\<close> ran
  (\<open>openThen\<close>, \<open>speechThen\<close>). Where the lookup of the label throws, the call ends
  there, after \<^verbatim>\<open>setIsTyping(true)\<close>.
\<close>

definition onStreamEvent :: "platform \<Rightarrow> bool \<Rightarrow> bool \<Rightarrow> json \<Rightarrow> chat_state \<Rightarrow> chat_state" where
  "onStreamEvent pf openThen speechThen evt st =
     (if optProp (Some evt) ''type'' = Some (JStr ''node_update'') then
        (case nodeOf evt of
           None \<Rightarrow> st\<lparr>isTyping := True\<rparr>
         | Some n \<Rightarrow>
             if truthy n
             then (case labelOf pf n of
                     Inl e \<Rightarrow> st\<lparr>isTyping := True\<rparr>
                   | Inr label \<Rightarrow>
                       st\<lparr>isTyping := True,
                          progressSteps := pushStep label (progressSteps st)\<rparr>)
             else st\<lparr>isTyping := True\<rparr>)
      else if optProp (Some evt) ''type'' = Some (JStr ''final'') then
        (let dat = eventData evt
         in st\<lparr>messages := messages st @ [aiMessage dat],
               speechQueue := (if speechThen \<and> truthy (streamedAnswerOf dat)
                               then speechQueue st @ [streamedAnswerOf dat]
                               else speechQueue st),
               hasNewMessage := (if \<not> openThen then True else hasNewMessage st),
               isTyping := False,
               isLoading := False,
               progressSteps := []\<rparr>)
      else st)"

text \<open>The error callback given to \<^verbatim>\<open>startChatStream\<close>.\<close>

definition streamErrorMessage :: chat_message where
  "streamErrorMessage =
     \<lparr>role = Assistant,
      content = JStr ''Sorry, the stream encountered an error. Please try again.'',
      data_context = None,
      chart_data = None,
      isError = True\<rparr>"

definition onStreamError :: "chat_state \<Rightarrow> chat_state" where
  "onStreamError st =
     st\<lparr>messages := messages st @ [streamErrorMessage],
        isTyping := False,
        isLoading := False,
        progressSteps := []\<rparr>"

text \<open>One call of the driver, as the widget sees it.\<close>

fun applyEffect :: "platform \<Rightarrow> bool \<Rightarrow> bool \<Rightarrow> chat_state \<Rightarrow> effect \<Rightarrow> chat_state" where
  "applyEffect pf openThen speechThen st (OnEvent evt) = onStreamEvent pf openThen speechThen evt st"
| "applyEffect pf openThen speechThen st (Warn w) = st"
| "applyEffect pf openThen speechThen st (OnError err) = onStreamError st"

text \<open>What a call of that callback is to the driver: it throws where the lookup of
  the label throws, and returns otherwise.\<close>

definition widgetCallback :: "platform \<Rightarrow> callback" where
  "widgetCallback pf evt =
     (if optProp (Some evt) ''type'' = Some (JStr ''node_update'') then
        (case nodeOf evt of
           None \<Rightarrow> None
         | Some n \<Rightarrow>
             if truthy n
             then (case labelOf pf n of Inl e \<Rightarrow> Some e | Inr label \<Rightarrow> None)
             else None)
      else None)"



text \<open>Delivering a sequence of events to the widget's event callback, in order.\<close>

definition deliver :: "platform \<Rightarrow> bool \<Rightarrow> bool \<Rightarrow> json list \<Rightarrow> chat_state \<Rightarrow> chat_state" where
  "deliver pf openThen speechThen evs st =
     foldl (\<lambda>s evt. onStreamEvent pf openThen speechThen evt s) st evs"

definition isFinal :: "json \<Rightarrow> bool" where
  "isFinal evt = (optProp (Some evt) ''type'' = Some (JStr ''final''))"

text \<open>The state of the widget after a run of the driver.\<close>

definition afterRun :: "platform \<Rightarrow> bool \<Rightarrow> bool \<Rightarrow> effect list \<Rightarrow> chat_state \<Rightarrow> chat_state" where
  "afterRun pf openThen speechThen effs st = foldl (applyEffect pf openThen speechThen) st effs"


section \<open>The dashboard views\<close>

subsection \<open>The Dashboard component (older client)\<close>










subsection \<open>SupplierDashboardCharts\<close>

























section \<open>Sample data\<close>

text \<open>Two event frames and four response bodies as the server writes them, the
  values \<^verbatim>\<open>JSON.parse\<close> gives for them, and a platform whose parser knows these
  texts and rejects every other one. Its string conversion is the one of the
  language; \<^verbatim>\<open>JSON.stringify\<close> is not called on these data.\<close>

definition nodeUpdateText :: string where
  \<open>nodeUpdateText = ''{"type":"node_update","node":"text_to_sql"}''\<close>

definition nodeUpdateEvent :: json where
  "nodeUpdateEvent = JObj [(''type'', JStr ''node_update''), (''node'', JStr ''text_to_sql'')]"

definition finalText :: string where
  \<open>finalText = ''{"type":"final","data":{"final_answer":"42 suppliers"}}''\<close>

definition finalEvent :: json where
  "finalEvent =
     JObj [(''type'', JStr ''final''),
           (''data'', JObj [(''final_answer'', JStr ''42 suppliers'')])]"

definition sampleParse :: "string \<Rightarrow> json option" where
  \<open>sampleParse s =
     (if s = nodeUpdateText then Some nodeUpdateEvent
      else if s = finalText then Some finalEvent
      else if s = ''{"detail":"Only Excel files are supported"}''
        then Some (JObj [(''detail'', JStr ''Only Excel files are supported'')])
      else if s = ''{"detail":""}'' then Some (JObj [(''detail'', JStr [])])
      else if s = ''{"detail":[{"msg":"field required"}]}''
        then Some (JObj [(''detail'', JArr [JObj [(''msg'', JStr ''field required'')]])])
      else if s = ''{"ingestion":{"upserted":123}}''
        then Some (JObj [(''ingestion'', JObj [(''upserted'', JNum 123)])])
      else None)\<close>

fun joinComma :: "string list \<Rightarrow> string" where
  "joinComma [] = []"
| "joinComma [x] = x"
| "joinComma (x # y # ys) = x @ '','' @ joinComma (y # ys)"

fun sampleToString :: "json \<Rightarrow> string" where
  "sampleToString JNull = ''null''"
| "sampleToString (JBool b) = (if b then ''true'' else ''false'')"
| "sampleToString (JNum n) = (if n < 0 then ''-'' @ showNat (nat (- n)) else showNat (nat n))"
| "sampleToString (JStr s) = s"
| "sampleToString (JArr xs) =
     joinComma (map (\<lambda>x. if x = JNull then [] else sampleToString x) xs)"
| "sampleToString (JObj ps) = ''[object Object]''"

definition samplePlatform :: platform where
  "samplePlatform =
     \<lparr>JSON_parse = sampleParse,
      JSON_stringify = (\<lambda>v. ''{}''),
      ToString = sampleToString\<rparr>"

definition okResponse :: stream_response where
  "okResponse = \<lparr>respOk = True, respStatus = 200, respHasBody = True\<rparr>"

definition AbortError :: exn where
  "AbortError = Exn ''AbortError'' ''The user aborted a request.''"

definition idleState :: chat_state where
  "idleState =
     \<lparr>messages = [], isLoading = False, isTyping = False, progressSteps = [],
      hasNewMessage = False, isOpen = True, speechEnabled = False, speechQueue = []\<rparr>"


section \<open>Properties of the insight list mutation\<close>

lemma map_of_setProp: "map_of (setProp k v ps) = (map_of ps)(k \<mapsto> v)"
  by (induction ps) (auto simp: fun_eq_iff)

lemma filterInsights_enumerate:
  "map snd (filter (\<lambda>(idx, _). idx \<noteq> n + k) (enumerate n xs)) = take k xs @ drop (Suc k) xs"
proof (induction xs arbitrary: n k)
  case Nil
  then show ?case by simp
next
  case (Cons x xs)
  show ?case
  proof (cases k)
    case 0
    have "filter (\<lambda>(idx, _). idx \<noteq> n) (enumerate (Suc n) xs) = enumerate (Suc n) xs"
      by (rule filter_True) (auto simp: in_set_enumerate_eq)
    with 0 show ?thesis by simp
  next
    case (Suc j)
    with Cons.IH [of "Suc n" j] show ?thesis by simp
  qed
qed

lemma filterInsights_take_drop:
  "filterInsights k xs = take k xs @ drop (Suc k) xs"
  using filterInsights_enumerate [of 0 k xs] by (simp add: filterInsights_def)

text \<open>
  The loop invariant of the re-indexing: after visiting the properties \<open>ps\<close>, slot \<open>j\<close>
  of \<open>updated\<close> holds what the visited properties had at \<open>j\<close> (below the removed index)
  or at \<open>j + 1\<close> (from the removed index on), and is as before otherwise.
\<close>

lemma reindex_foldl_lookup:
  assumes "distinct (map fst ps)"
  shows "map_of (foldl (reindexStep k) acc ps) (Idx j) =
           (case map_of ps (Idx (if j < k then j else Suc j)) of
              Some v \<Rightarrow> Some v
            | None \<Rightarrow> map_of acc (Idx j))"
  using assms
proof (induction ps arbitrary: acc)
  case Nil
  then show ?case by simp
next
  case (Cons p ps)
  obtain key v where p: "p = (key, v)" by (cases p)
  from Cons.prems p have notin: "key \<notin> fst ` set ps" and dist: "distinct (map fst ps)"
    by auto
  have absent: "map_of ps key = None"
    using notin by (simp add: map_of_eq_None_iff)
  show ?case
  proof (cases key)
    case (Name s)
    with p Cons.IH [OF dist] show ?thesis
      by (simp add: reindexStep_def)
  next
    case (Idx i)
    with p Cons.IH [OF dist] absent show ?thesis
      by (auto simp: reindexStep_def map_of_setProp split: option.splits)
  qed
qed

lemma reindexFeedback_lookup:
  assumes "distinct (map fst prev)"
  shows "map_of (reindexFeedback k prev) (Idx j) =
           map_of prev (Idx (if j < k then j else Suc j))"
  using reindex_foldl_lookup [OF assms, of k "[]" j]
  by (simp add: reindexFeedback_def split: option.splits)

lemma setProp_keys: "fst ` set (setProp k v ps) = insert k (fst ` set ps)"
  by (induction ps) auto

lemma distinct_setProp: "distinct (map fst ps) \<Longrightarrow> distinct (map fst (setProp k v ps))"
  by (induction ps) (auto simp: setProp_keys)

lemma distinct_reindex_foldl:
  "distinct (map fst acc) \<Longrightarrow> distinct (map fst (foldl (reindexStep k) acc ps))"
  by (induction ps arbitrary: acc)
     (auto simp: reindexStep_def distinct_setProp split: fkey.splits)

text \<open>
  Claim C1. Removing the insight at index \<open>k\<close> re-maps the feedback object: the value
  under every index \<open>j > k\<close> is afterwards found under \<open>j - 1\<close>, every index \<open>j < k\<close>
  keeps its value, and the entry of \<open>k\<close> itself is dropped (slot \<open>k\<close> afterwards holds
  what was at \<open>k + 1\<close>, and nothing when there was no such entry); the insights list
  afterwards is the old list with the element at index \<open>k\<close> deleted. The feedback
  object is any object (each property name once).
\<close>

theorem handleRemoveInsight_reindexes:
  assumes "distinct (map fst (insightFeedback s))"
  shows "(\<forall>j. k < j \<longrightarrow>
            map_of (insightFeedback (handleRemoveInsight k s)) (Idx (j - 1)) =
            map_of (insightFeedback s) (Idx j))
       \<and> (\<forall>j. j < k \<longrightarrow>
            map_of (insightFeedback (handleRemoveInsight k s)) (Idx j) =
            map_of (insightFeedback s) (Idx j))
       \<and> map_of (insightFeedback (handleRemoveInsight k s)) (Idx k) =
            map_of (insightFeedback s) (Idx (Suc k))
       \<and> distinct (map fst (insightFeedback (handleRemoveInsight k s)))
       \<and> (\<forall>a xs. aiAnalysis s = Some a \<and> insights a = Some xs \<longrightarrow>
            map_option insights (aiAnalysis (handleRemoveInsight k s)) =
            Some (Some (take k xs @ drop (Suc k) xs)))"
proof -
  let ?fb = "insightFeedback s"
  have fb': "insightFeedback (handleRemoveInsight k s) = reindexFeedback k ?fb"
    by (simp add: handleRemoveInsight_def)
  have above: "map_of (reindexFeedback k ?fb) (Idx (j - 1)) = map_of ?fb (Idx j)" if "k < j" for j
  proof -
    from that have "\<not> j - 1 < k" and "Suc (j - 1) = j" by auto
    then show ?thesis using reindexFeedback_lookup [OF assms, of k "j - 1"] by simp
  qed
  have below: "map_of (reindexFeedback k ?fb) (Idx j) = map_of ?fb (Idx j)" if "j < k" for j
    using that reindexFeedback_lookup [OF assms, of k j] by simp
  have at: "map_of (reindexFeedback k ?fb) (Idx k) = map_of ?fb (Idx (Suc k))"
    using reindexFeedback_lookup [OF assms, of k k] by simp
  have dist: "distinct (map fst (reindexFeedback k ?fb))"
    unfolding reindexFeedback_def by (rule distinct_reindex_foldl) simp
  have ins: "map_option insights (aiAnalysis (handleRemoveInsight k s)) =
               Some (Some (take k xs @ drop (Suc k) xs))"
    if "aiAnalysis s = Some a \<and> insights a = Some xs" for a xs
    using that
    by (simp add: handleRemoveInsight_def removeFromAnalysis_def filterInsights_take_drop)
  from above below at dist ins show ?thesis
    unfolding fb' by blast
qed

theorem handleRemoveInsight_reindexes_witness:
  "insightFeedback (handleRemoveInsight 1
      \<lparr>aiAnalysis = Some \<lparr>insights = Some [''a'', ''b'', ''c'']\<rparr>,
       insightFeedback = [(Idx 0, True), (Idx 1, False), (Idx 2, True)]\<rparr>)
     = [(Idx 0, True), (Idx 1, True)]
   \<and> map_of (insightFeedback (handleRemoveInsight 1
      \<lparr>aiAnalysis = Some \<lparr>insights = Some [''a'', ''b'', ''c'']\<rparr>,
       insightFeedback = [(Idx 0, True), (Idx 1, False), (Idx 2, True)]\<rparr>)) (Idx (2 - 1))
     = Some True
   \<and> map_option insights (aiAnalysis (handleRemoveInsight 1
      \<lparr>aiAnalysis = Some \<lparr>insights = Some [''a'', ''b'', ''c'']\<rparr>,
       insightFeedback = [(Idx 0, True), (Idx 1, False), (Idx 2, True)]\<rparr>))
     = Some (Some [''a'', ''c''])"
proof -
  let ?s = "\<lparr>aiAnalysis = Some \<lparr>insights = Some [''a'', ''b'', ''c'']\<rparr>,
             insightFeedback = [(Idx 0, True), (Idx 1, False), (Idx 2, True)]\<rparr>"
  have d: "distinct (map fst (insightFeedback ?s))" by simp
  have run: "insightFeedback (handleRemoveInsight 1 ?s) = [(Idx 0, True), (Idx 1, True)]"
    by (simp add: handleRemoveInsight_def reindexFeedback_def reindexStep_def)
  from handleRemoveInsight_reindexes [OF d, of 1]
  have "map_of (insightFeedback (handleRemoveInsight 1 ?s)) (Idx (2 - 1)) =
          map_of (insightFeedback ?s) (Idx 2)"
    and "map_option insights (aiAnalysis (handleRemoveInsight 1 ?s)) =
          Some (Some (take 1 [''a'', ''b'', ''c''] @ drop (Suc 1) [''a'', ''b'', ''c'']))"
    by auto
  with run show ?thesis by simp
qed

section \<open>Properties of the API service\<close>

lemma tryCatch_Inr: "tryCatch (Inr v) handler = Inr v"
  by (simp add: tryCatch_def)

lemma tryCatch_Inl: "tryCatch (Inl e) handler = handler e"
  by (simp add: tryCatch_def)





lemma sendChatMessage_Rejected:
  "sendChatMessage OnService pf (Rejected e) = sendChatMessageCatch OnService pf (responseRejected pf e)"
  by (simp add: sendChatMessage_def sendChatMessageTry_def apiCall_def bindE_def tryCatch_def)




lemma uploadFailureMessage_eq:
  "uploadFailureMessage pf response =
     (case keptDetail pf response of
        Some d \<Rightarrow> Some d
      | None \<Rightarrow> Some (JStr ''File upload failed''))"
  by (cases "JSON_parse pf (body response)")
     (auto simp: uploadFailureMessage_def keptDetail_def parseJSON_def tryCatch_def bindE_def
        getProp_def jsOr_def truthyV_def
        split: option.splits json.splits sum.splits)

text \<open>
  Claim C6, as the code has it. When the response is not ok, \<^verbatim>\<open>uploadAndAnalyzeFile\<close>
  rejects with an \<^verbatim>\<open>Error\<close> whose message is the \<^verbatim>\<open>detail\<close> of the body when the body
  parses and its \<^verbatim>\<open>detail\<close> is truthy (for a string: not empty), converted to a
  string (or with the TypeError of that conversion, for a \<^verbatim>\<open>detail\<close> that has no
  primitive value), and is \<^verbatim>\<open>File upload failed\<close> in every other case: no \<^verbatim>\<open>detail\<close>,
  an empty or otherwise falsy one, a body that is \<^verbatim>\<open>null\<close> or does not parse. When
  the response is ok and its body parses, the call resolves with the parsed body.
\<close>

theorem uploadAndAnalyzeFile_message:
  "(\<not> ok response \<longrightarrow>
      uploadAndAnalyzeFile pf (FetchResolved response) =
        Inl (case keptDetail pf response of
               Some d \<Rightarrow> if throwsToPrimitive d then conversionError
                         else Error (toStringJs pf (Some d))
             | None \<Rightarrow> Error ''File upload failed''))
   \<and> (\<not> ok response \<and> JSON_parse pf (body response) = Some (JObj ps)
        \<and> map_of ps ''detail'' = Some (JStr s) \<and> s \<noteq> [] \<longrightarrow>
      uploadAndAnalyzeFile pf (FetchResolved response) = Inl (Error s))
   \<and> (ok response \<and> JSON_parse pf (body response) = Some v \<longrightarrow>
      uploadAndAnalyzeFile pf (FetchResolved response) = Inr v)"
proof -
  have failed: "uploadAndAnalyzeFile pf (FetchResolved response) =
        Inl (case keptDetail pf response of
               Some d \<Rightarrow> if throwsToPrimitive d then conversionError
                         else Error (toStringJs pf (Some d))
             | None \<Rightarrow> Error ''File upload failed'')" if "\<not> ok response"
    using that
    by (simp add: uploadAndAnalyzeFile_def tryCatch_def newError_def uploadFailureMessage_eq
          toStringJs_def split: option.splits)
  have detail: "uploadAndAnalyzeFile pf (FetchResolved response) = Inl (Error s)"
    if "\<not> ok response \<and> JSON_parse pf (body response) = Some (JObj ps)
        \<and> map_of ps ''detail'' = Some (JStr s) \<and> s \<noteq> []"
  proof -
    from that have "keptDetail pf response = Some (JStr s)"
      by (simp add: keptDetail_def)
    with that failed show ?thesis by (simp add: toStringJs_def)
  qed
  have resolved: "uploadAndAnalyzeFile pf (FetchResolved response) = Inr v"
    if "ok response \<and> JSON_parse pf (body response) = Some v"
    using that by (simp add: uploadAndAnalyzeFile_def tryCatch_def parseJSON_def)
  from failed detail resolved show ?thesis by blast
qed

theorem uploadAndAnalyzeFile_message_witness:
  \<open>uploadAndAnalyzeFile samplePlatform
      (FetchResolved \<lparr>ok = False, body = ''{"detail":"Only Excel files are supported"}''\<rparr>)
     = Inl (Error ''Only Excel files are supported'')
   \<and> uploadAndAnalyzeFile samplePlatform
      (FetchResolved \<lparr>ok = False, body = ''Internal Server Error''\<rparr>)
     = Inl (Error ''File upload failed'')
   \<and> uploadAndAnalyzeFile samplePlatform
      (FetchResolved \<lparr>ok = True, body = ''{"ingestion":{"upserted":123}}''\<rparr>)
     = Inr (JObj [(''ingestion'', JObj [(''upserted'', JNum 123)])])\<close>
proof -
  let ?bad = \<open>\<lparr>ok = False, body = ''{"detail":"Only Excel files are supported"}''\<rparr>\<close>
  let ?plain = "\<lparr>ok = False, body = ''Internal Server Error''\<rparr>"
  let ?good = \<open>\<lparr>ok = True, body = ''{"ingestion":{"upserted":123}}''\<rparr>\<close>
  have h1: "\<not> ok ?bad \<and> JSON_parse samplePlatform (body ?bad) =
              Some (JObj [(''detail'', JStr ''Only Excel files are supported'')])
            \<and> map_of [(''detail'', JStr ''Only Excel files are supported'')] ''detail'' =
              Some (JStr ''Only Excel files are supported'')
            \<and> ''Only Excel files are supported'' \<noteq> []"
    by (simp add: samplePlatform_def sampleParse_def nodeUpdateText_def finalText_def)
  have h2: "\<not> ok ?plain" by simp
  have k2: "keptDetail samplePlatform ?plain = None"
    by (simp add: keptDetail_def samplePlatform_def sampleParse_def nodeUpdateText_def
          finalText_def)
  have h3: "ok ?good \<and> JSON_parse samplePlatform (body ?good) =
              Some (JObj [(''ingestion'', JObj [(''upserted'', JNum 123)])])"
    by (simp add: samplePlatform_def sampleParse_def nodeUpdateText_def finalText_def)
  from uploadAndAnalyzeFile_message
         [of ?bad samplePlatform "[(''detail'', JStr ''Only Excel files are supported'')]"
             "''Only Excel files are supported''" JNull] h1
  have r1: "uploadAndAnalyzeFile samplePlatform (FetchResolved ?bad) =
              Inl (Error ''Only Excel files are supported'')"
    by blast
  from uploadAndAnalyzeFile_message [of ?plain samplePlatform "[]" "[]" JNull] h2
  have r2: "uploadAndAnalyzeFile samplePlatform (FetchResolved ?plain) =
              Inl (Error ''File upload failed'')"
    by (simp add: k2)
  from uploadAndAnalyzeFile_message
         [of ?good samplePlatform "[]" "[]" "JObj [(''ingestion'', JObj [(''upserted'', JNum 123)])]"]
       h3
  have r3: "uploadAndAnalyzeFile samplePlatform (FetchResolved ?good) =
              Inr (JObj [(''ingestion'', JObj [(''upserted'', JNum 123)])])"
    by blast
  from r1 r2 r3 show ?thesis by (simp only: simp_thms)
qed

text \<open>
  The claim as it is written fails for a body whose \<^verbatim>\<open>detail\<close> is there and empty:
  the message is the generic string, not the field. And for a \<^verbatim>\<open>detail\<close> that is a
  list (as the validation errors of the server are) the message is the string
  conversion of the list.
\<close>

theorem empty_detail_counterexample:
  \<open>JSON_parse samplePlatform ''{"detail":""}'' = Some (JObj [(''detail'', JStr [])])
   \<and> uploadAndAnalyzeFile samplePlatform (FetchResolved \<lparr>ok = False, body = ''{"detail":""}''\<rparr>)
     = Inl (Error ''File upload failed'')
   \<and> JSON_parse samplePlatform ''{"detail":[{"msg":"field required"}]}''
     = Some (JObj [(''detail'', JArr [JObj [(''msg'', JStr ''field required'')]])])
   \<and> uploadAndAnalyzeFile samplePlatform
       (FetchResolved \<lparr>ok = False, body = ''{"detail":[{"msg":"field required"}]}''\<rparr>)
     = Inl (Error ''[object Object]'')\<close>
  by (simp add: uploadAndAnalyzeFile_def tryCatch_def newError_def uploadFailureMessage_eq
        keptDetail_def toStringJs_def samplePlatform_def sampleParse_def nodeUpdateText_def
        finalText_def)

lemma sendChatMessage_Fulfilled:
  "\<exists>dataContext chartData.
     sendChatMessage OnService pf (Fulfilled data) =
       Inr \<lparr>success = True,
            message = jsOr (extractTextFromResponse pf (optProp (Some data) ''final_answer''))
                           (Some (JStr ''No response available'')),
            resp_data_context = Some dataContext,
            resp_chart_data = Some chartData,
            sql_query = jsOr (optProp (Some data) ''sql_query'') (Some JNull),
            suggested_actions = Some suggestedActions,
            error = None\<rparr>"
proof -
  obtain dc where dc: "tryCatch (dataContextOf pf data) (\<lambda>e. Inr JNull) = Inr dc"
    by (cases "dataContextOf pf data") (simp_all add: tryCatch_def)
  have "\<exists>cd. (case optProp (Some data) ''visualization_data'' of
        None \<Rightarrow> Inr JNull
      | Some vd \<Rightarrow> if truthy vd then tryCatch (chartDataOf OnService pf vd) (\<lambda>e. Inr JNull) else Inr JNull)
     = (Inr cd :: exn + json)"
    by (auto simp: tryCatch_def split: option.splits sum.splits)
  then obtain cd where cd:
    "(case optProp (Some data) ''visualization_data'' of
        None \<Rightarrow> Inr JNull
      | Some vd \<Rightarrow> if truthy vd then tryCatch (chartDataOf OnService pf vd) (\<lambda>e. Inr JNull) else Inr JNull)
     = (Inr cd :: exn + json)"
    by blast
  show ?thesis
    by (simp add: sendChatMessage_def sendChatMessageTry_def apiCall_def bindE_def dc cd
          tryCatch_Inr)
qed

lemma sendChatMessage_Fulfilled_value:
  "sendChatMessage OnService pf (Fulfilled data) =
     Inr \<lparr>success = True,
          message = jsOr (extractTextFromResponse pf (optProp (Some data) ''final_answer''))
                         (Some (JStr ''No response available'')),
          resp_data_context =
            Some (case optProp (Some data) ''query_result'' of
                    None \<Rightarrow> JNull
                  | Some (JStr s) \<Rightarrow> (case JSON_parse pf s of None \<Rightarrow> JNull | Some v \<Rightarrow> v)
                  | Some v \<Rightarrow> if truthy v then v else JNull),
          resp_chart_data =
            Some (case optProp (Some data) ''visualization_data'' of
                    None \<Rightarrow> JNull
                  | Some (JStr s) \<Rightarrow>
                      if s = [] then JNull
                      else (case JSON_parse pf s of
                              None \<Rightarrow> JNull
                            | Some v \<Rightarrow> sanitizeChartData v)
                  | Some v \<Rightarrow> if truthy v then sanitizeChartData v else JNull),
          sql_query = jsOr (optProp (Some data) ''sql_query'') (Some JNull),
          suggested_actions = Some suggestedActions,
          error = None\<rparr>"
proof -
  have dc: "tryCatch (dataContextOf pf data) (\<lambda>e. Inr JNull) =
              Inr (case optProp (Some data) ''query_result'' of
                     None \<Rightarrow> JNull
                   | Some (JStr s) \<Rightarrow> (case JSON_parse pf s of None \<Rightarrow> JNull | Some v \<Rightarrow> v)
                   | Some v \<Rightarrow> if truthy v then v else JNull)"
    by (simp add: dataContextOf_def parseJSON_def tryCatch_def
          split: option.splits json.splits)
  have cd: "(case optProp (Some data) ''visualization_data'' of
               None \<Rightarrow> Inr JNull
             | Some vd \<Rightarrow>
                 if truthy vd then tryCatch (chartDataOf OnService pf vd) (\<lambda>e. Inr JNull)
                 else Inr JNull) =
            (Inr (case optProp (Some data) ''visualization_data'' of
                    None \<Rightarrow> JNull
                  | Some (JStr s) \<Rightarrow>
                      if s = [] then JNull
                      else (case JSON_parse pf s of
                              None \<Rightarrow> JNull
                            | Some v \<Rightarrow> sanitizeChartData v)
                  | Some v \<Rightarrow> if truthy v then sanitizeChartData v else JNull) :: exn + json)"
    by (simp add: chartDataOf_def parseJSON_def tryCatch_def bindE_def
          split: option.splits json.splits)
  show ?thesis
    unfolding sendChatMessage_def sendChatMessageTry_def
    by (simp add: apiCall_def bindE_def dc cd tryCatch_Inr)
qed

lemma truthy_jsOr_string: "truthyV (jsOr v (Some (JStr (c # cs))))"
  by (simp add: jsOr_def truthyV_def)

lemma sendChatMessage_Rejected_value:
  "sendChatMessage OnService pf (Rejected e) =
     Inr \<lparr>success = False,
          message = Some (JStr (if errorMessage (responseRejected pf e) = []
               then ''Sorry, I encountered an error processing your request. Please try again.''
               else errorMessage (responseRejected pf e))),
          resp_data_context = None,
          resp_chart_data = None,
          sql_query = None,
          suggested_actions = None,
          error = Some (JStr (if errorMessage (responseRejected pf e) = [] then ''Error''
                              else errorMessage (responseRejected pf e)))\<rparr>"
proof -
  have "\<exists>n m. responseRejected pf e = Exn n m \<and> (m = [] \<longrightarrow> n = ''Error'')"
    by (auto simp: responseRejected_def newError_def conversionError_def Error_def
          TypeError_def split: option.splits)
  then obtain n m where m: "responseRejected pf e = Exn n m" "m = [] \<longrightarrow> n = ''Error''"
    by blast
  show ?thesis
    unfolding sendChatMessage_Rejected m(1) using m(2)
    by (simp add: sendChatMessageCatch_def bindE_def extractTextFromResponse_def jsOr_def
          truthyV_def errorToString_def)
qed

text \<open>
  Claim C10, as the code has it. Called on the service instance,
  \<^verbatim>\<open>sendChatMessage\<close> never rejects. When the request
  succeeds it resolves with \<^verbatim>\<open>success = true\<close>, no \<^verbatim>\<open>error\<close>, and a truthy
  \<^verbatim>\<open>message\<close>, which is the answer when \<^verbatim>\<open>final_answer\<close> is a non-empty string and
  \<^verbatim>\<open>No response available\<close> when it is missing or empty. The field \<^verbatim>\<open>data_context\<close>
  is the parsed \<^verbatim>\<open>query_result\<close> when that is a string that parses, \<^verbatim>\<open>null\<close> when it
  is a string that does not parse, the value itself when it is truthy and no
  string, and \<^verbatim>\<open>null\<close> otherwise. The field \<^verbatim>\<open>chart_data\<close> is the sanitized chart
  parsed from \<^verbatim>\<open>visualization_data\<close> when that is a non-empty string that parses,
  \<^verbatim>\<open>null\<close> when it is one that does not parse, the sanitized value when it is truthy
  and no string, and \<^verbatim>\<open>null\<close> otherwise. So a parse failure leaves its field \<^verbatim>\<open>null\<close>
  and the call still resolves with \<^verbatim>\<open>success = true\<close>. When the request fails (a
  server error, no response) it resolves with \<^verbatim>\<open>success = false\<close> and with a
  \<^verbatim>\<open>message\<close> and an \<^verbatim>\<open>error\<close> that are non-empty strings.
\<close>

theorem sendChatMessage_always_resolves:
  "(\<exists>r. sendChatMessage OnService pf outcome = Inr r)
   \<and> (\<forall>data r. outcome = Fulfilled data \<and> sendChatMessage OnService pf outcome = Inr r \<longrightarrow>
         success r \<and> error r = None \<and> truthyV (message r)
         \<and> (\<forall>s. optProp (Some data) ''final_answer'' = Some (JStr s) \<longrightarrow>
               message r = Some (JStr (if s = [] then ''No response available'' else s)))
         \<and> (optProp (Some data) ''final_answer'' = None \<longrightarrow>
               message r = Some (JStr ''No response available'')))
   \<and> (\<forall>e r. outcome = Rejected e \<and> sendChatMessage OnService pf outcome = Inr r \<longrightarrow>
         \<not> success r
         \<and> (\<exists>m. message r = Some (JStr m) \<and> m \<noteq> [])
         \<and> (\<exists>m. error r = Some (JStr m) \<and> m \<noteq> []))
   \<and> (\<forall>data r. outcome = Fulfilled data \<and> sendChatMessage OnService pf outcome = Inr r \<longrightarrow>
         resp_data_context r =
           Some (case optProp (Some data) ''query_result'' of
                   None \<Rightarrow> JNull
                 | Some (JStr s) \<Rightarrow> (case JSON_parse pf s of None \<Rightarrow> JNull | Some v \<Rightarrow> v)
                 | Some v \<Rightarrow> if truthy v then v else JNull)
         \<and> resp_chart_data r =
           Some (case optProp (Some data) ''visualization_data'' of
                   None \<Rightarrow> JNull
                 | Some (JStr s) \<Rightarrow>
                     if s = [] then JNull
                     else (case JSON_parse pf s of
                             None \<Rightarrow> JNull
                           | Some v \<Rightarrow> sanitizeChartData v)
                 | Some v \<Rightarrow> if truthy v then sanitizeChartData v else JNull)
         \<and> sql_query r = jsOr (optProp (Some data) ''sql_query'') (Some JNull)
         \<and> suggested_actions r = Some suggestedActions)
   \<and> (\<forall>s data r. outcome = Fulfilled data \<and> sendChatMessage OnService pf outcome = Inr r
         \<and> optProp (Some data) ''query_result'' = Some (JStr s) \<and> JSON_parse pf s = None \<longrightarrow>
         success r \<and> resp_data_context r = Some JNull)
   \<and> (\<forall>s data r. outcome = Fulfilled data \<and> sendChatMessage OnService pf outcome = Inr r
         \<and> optProp (Some data) ''visualization_data'' = Some (JStr s) \<and> JSON_parse pf s = None \<longrightarrow>
         success r \<and> resp_chart_data r = Some JNull)"
proof -
  have resolves: "\<exists>r. sendChatMessage OnService pf outcome = Inr r"
  proof (cases outcome)
    case (Fulfilled data)
    with sendChatMessage_Fulfilled [of pf data] show ?thesis by auto
  next
    case (Rejected e)
    with sendChatMessage_Rejected_value [of pf e] show ?thesis by simp
  qed
  have ok: "success r \<and> error r = None \<and> truthyV (message r)
         \<and> (\<forall>s. optProp (Some data) ''final_answer'' = Some (JStr s) \<longrightarrow>
               message r = Some (JStr (if s = [] then ''No response available'' else s)))
         \<and> (optProp (Some data) ''final_answer'' = None \<longrightarrow>
               message r = Some (JStr ''No response available''))"
    if "outcome = Fulfilled data \<and> sendChatMessage OnService pf outcome = Inr r" for data r
  proof -
    from that sendChatMessage_Fulfilled [of pf data]
    have msg: "message r = jsOr (extractTextFromResponse pf (optProp (Some data) ''final_answer''))
                               (Some (JStr ''No response available''))"
      and flags: "success r" "error r = None"
      by auto
    have t: "truthyV (message r)"
      unfolding msg by (rule truthy_jsOr_string)
    have str: "message r = Some (JStr (if s = [] then ''No response available'' else s))"
      if "optProp (Some data) ''final_answer'' = Some (JStr s)" for s
      unfolding msg using that
      by (simp add: extractTextFromResponse_def jsOr_def truthyV_def)
    have none: "message r = Some (JStr ''No response available'')"
      if "optProp (Some data) ''final_answer'' = None"
      unfolding msg using that
      by (simp add: extractTextFromResponse_def jsOr_def truthyV_def)
    from flags t str none show ?thesis by blast
  qed
  have failed: "\<not> success r
         \<and> (\<exists>m. message r = Some (JStr m) \<and> m \<noteq> [])
         \<and> (\<exists>m. error r = Some (JStr m) \<and> m \<noteq> [])"
    if "outcome = Rejected e \<and> sendChatMessage OnService pf outcome = Inr r" for e r
  proof -
    define m where "m = errorMessage (responseRejected pf e)"
    from that have "sendChatMessage OnService pf (Rejected e) = Inr r" by auto
    then have "success r = False"
      and "message r = Some (JStr (if m = []
               then ''Sorry, I encountered an error processing your request. Please try again.''
               else m))"
      and "error r = Some (JStr (if m = [] then ''Error'' else m))"
      unfolding sendChatMessage_Rejected_value m_def by auto
    then show ?thesis by (cases "m = []") simp_all
  qed
  have fields: "resp_data_context r =
           Some (case optProp (Some data) ''query_result'' of
                   None \<Rightarrow> JNull
                 | Some (JStr s) \<Rightarrow> (case JSON_parse pf s of None \<Rightarrow> JNull | Some v \<Rightarrow> v)
                 | Some v \<Rightarrow> if truthy v then v else JNull)
         \<and> resp_chart_data r =
           Some (case optProp (Some data) ''visualization_data'' of
                   None \<Rightarrow> JNull
                 | Some (JStr s) \<Rightarrow>
                     if s = [] then JNull
                     else (case JSON_parse pf s of
                             None \<Rightarrow> JNull
                           | Some v \<Rightarrow> sanitizeChartData v)
                 | Some v \<Rightarrow> if truthy v then sanitizeChartData v else JNull)
         \<and> sql_query r = jsOr (optProp (Some data) ''sql_query'') (Some JNull)
         \<and> suggested_actions r = Some suggestedActions"
    if "outcome = Fulfilled data \<and> sendChatMessage OnService pf outcome = Inr r" for data r
  proof -
    from that have "sendChatMessage OnService pf (Fulfilled data) = Inr r" by auto
    then show ?thesis unfolding sendChatMessage_Fulfilled_value by auto
  qed
  have noContext: "success r \<and> resp_data_context r = Some JNull"
    if h: "outcome = Fulfilled data \<and> sendChatMessage OnService pf outcome = Inr r
         \<and> optProp (Some data) ''query_result'' = Some (JStr s) \<and> JSON_parse pf s = None"
    for s data r
  proof -
    from h have run: "outcome = Fulfilled data \<and> sendChatMessage OnService pf outcome = Inr r"
      by blast
    from fields [OF run] h have "resp_data_context r = Some JNull" by simp
    with ok [OF run] show ?thesis by simp
  qed
  have noChart: "success r \<and> resp_chart_data r = Some JNull"
    if h: "outcome = Fulfilled data \<and> sendChatMessage OnService pf outcome = Inr r
         \<and> optProp (Some data) ''visualization_data'' = Some (JStr s) \<and> JSON_parse pf s = None"
    for s data r
  proof -
    from h have run: "outcome = Fulfilled data \<and> sendChatMessage OnService pf outcome = Inr r"
      by blast
    from fields [OF run] h have "resp_chart_data r = Some JNull" by simp
    with ok [OF run] show ?thesis by simp
  qed
  from resolves ok failed fields noContext noChart show ?thesis by blast
qed

theorem sendChatMessage_always_resolves_witness:
  "sendChatMessage OnService samplePlatform
     (Rejected \<lparr>axMessage = ''Request failed with status code 500'',
                axResponseData = Some (JObj [(''detail'', JStr ''LLM backend unavailable'')]),
                axRequest = True\<rparr>)
   = Inr \<lparr>success = False, message = Some (JStr ''LLM backend unavailable''),
          resp_data_context = None, resp_chart_data = None, sql_query = None,
          suggested_actions = None, error = Some (JStr ''LLM backend unavailable'')\<rparr>
   \<and> (\<exists>r. sendChatMessage OnService samplePlatform
              (Fulfilled (JObj [(''final_answer'', JStr ''42 suppliers'')])) = Inr r
          \<and> success r \<and> message r = Some (JStr ''42 suppliers''))"
proof -
  let ?e = "\<lparr>axMessage = ''Request failed with status code 500'',
              axResponseData = Some (JObj [(''detail'', JStr ''LLM backend unavailable'')]),
              axRequest = True\<rparr>"
  let ?ok = "Fulfilled (JObj [(''final_answer'', JStr ''42 suppliers'')])"
  have first: "sendChatMessage OnService samplePlatform (Rejected ?e)
       = Inr \<lparr>success = False, message = Some (JStr ''LLM backend unavailable''),
          resp_data_context = None, resp_chart_data = None, sql_query = None,
          suggested_actions = None, error = Some (JStr ''LLM backend unavailable'')\<rparr>"
    by (simp add: sendChatMessage_Rejected_value responseRejected_def newError_def
          toStringJs_def jsOr_def truthyV_def optProp_def Error_def)
  from sendChatMessage_always_resolves [of samplePlatform ?ok, THEN conjunct1]
  obtain r where r: "sendChatMessage OnService samplePlatform ?ok = Inr r" by blast
  have fa: "optProp (Some (JObj [(''final_answer'', JStr ''42 suppliers'')])) ''final_answer''
              = Some (JStr ''42 suppliers'')"
    by (simp add: optProp_def)
  from sendChatMessage_always_resolves [of samplePlatform ?ok, THEN conjunct2, THEN conjunct1]
       r fa
  have "success r \<and> message r = Some (JStr ''42 suppliers'')"
    by auto
  with r first show ?thesis by blast
qed

text \<open>
  The claim as it is written fails for a parse failure: the \<^verbatim>\<open>SyntaxError\<close> that
  \<^verbatim>\<open>JSON.parse\<close> throws on a \<^verbatim>\<open>query_result\<close> that is not JSON is caught inside, and
  the call resolves with \<^verbatim>\<open>success = true\<close>. And the function under its exported name
  rejects: \<^verbatim>\<open>this.extractTextFromResponse\<close> throws in the \<^verbatim>\<open>try\<close> block and again in
  the \<^verbatim>\<open>catch\<close> block.
\<close>

theorem parse_failure_counterexample:
  "parseJSON samplePlatform ''not json'' = Inl (SyntaxError ''Unexpected token'')
   \<and> sendChatMessage OnService samplePlatform
       (Fulfilled (JObj [(''final_answer'', JStr ''42 suppliers''),
                         (''query_result'', JStr ''not json'')]))
     = Inr \<lparr>success = True, message = Some (JStr ''42 suppliers''),
            resp_data_context = Some JNull, resp_chart_data = Some JNull,
            sql_query = Some JNull, suggested_actions = Some suggestedActions,
            error = None\<rparr>
   \<and> sendChatMessage Unbound samplePlatform
       (Fulfilled (JObj [(''final_answer'', JStr ''42 suppliers'')]))
     = Inl (TypeError ''Cannot read properties of undefined'')"
  by (simp add: sendChatMessage_def sendChatMessageTry_def sendChatMessageCatch_def apiCall_def
        bindE_def tryCatch_def dataContextOf_def parseJSON_def optProp_def samplePlatform_def
        sampleParse_def nodeUpdateText_def finalText_def extractTextFromResponse_def jsOr_def
        truthyV_def)

section \<open>Properties of the streaming driver\<close>

lemma widgetCallback_nodeUpdateEvent: "widgetCallback pf nodeUpdateEvent = None"
  by (simp add: widgetCallback_def nodeUpdateEvent_def nodeOf_def labelOf_def optProp_def
        jsOr_def truthyV_def split: option.splits)

lemma widgetCallback_finalEvent: "widgetCallback pf finalEvent = None"
  by (simp add: widgetCallback_def finalEvent_def optProp_def)

lemma indexOfSep_bound: "indexOfSep s = Some i \<Longrightarrow> i + 2 \<le> length s"
  by (induction s arbitrary: i rule: indexOfSep.induct) (auto split: if_splits)

lemma indexOfSep_append:
  "indexOfSep b = Some i \<Longrightarrow> indexOfSep (b @ c) = Some i"
  by (induction b arbitrary: i rule: indexOfSep.induct) (auto split: if_splits)

lemma drainBuffer_None: "indexOfSep b = None \<Longrightarrow> drainBuffer pf cb b = ([], b)"
  by (simp add: drainBuffer.simps)

lemma drainBuffer_Some:
  "indexOfSep b = Some i \<Longrightarrow>
     drainBuffer pf cb b =
       (dispatchChunk pf cb (trim (take i b)) @ fst (drainBuffer pf cb (drop (i + 2) b)),
        snd (drainBuffer pf cb (drop (i + 2) b)))"
  by (simp add: drainBuffer.simps [of pf cb b] Let_def)

text \<open>Draining a buffer that grows by \<open>c\<close> is draining the old buffer first and then
  what it left together with \<open>c\<close>.\<close>

lemma drainBuffer_append:
  "drainBuffer pf cb (b @ c) =
     (fst (drainBuffer pf cb b) @ fst (drainBuffer pf cb (snd (drainBuffer pf cb b) @ c)),
      snd (drainBuffer pf cb (snd (drainBuffer pf cb b) @ c)))"
proof (induction b rule: length_induct)
  case (1 b)
  show ?case
  proof (cases "indexOfSep b")
    case None
    then show ?thesis by (simp add: drainBuffer_None)
  next
    case (Some i)
    from indexOfSep_bound [OF Some] have len: "i + 2 \<le> length b" .
    then have shorter: "length (drop (i + 2) b) < length b" by simp
    have sep: "indexOfSep (b @ c) = Some i" by (rule indexOfSep_append [OF Some])
    have tk: "take i (b @ c) = take i b" using len by simp
    have dr: "drop (i + 2) (b @ c) = drop (i + 2) b @ c" using len by simp
    from 1 shorter
    have IH: "drainBuffer pf cb (drop (i + 2) b @ c) =
      (fst (drainBuffer pf cb (drop (i + 2) b)) @
         fst (drainBuffer pf cb (snd (drainBuffer pf cb (drop (i + 2) b)) @ c)),
       snd (drainBuffer pf cb (snd (drainBuffer pf cb (drop (i + 2) b)) @ c)))"
      by blast
    show ?thesis
      unfolding drainBuffer_Some [OF sep] drainBuffer_Some [OF Some] tk dr IH
      by simp
  qed
qed

lemma readLoop_merge:
  "readLoop pf cb (Chunk c1 # Chunk c2 # rs) b = readLoop pf cb (Chunk (c1 @ c2) # rs) b"
  using drainBuffer_append [of pf cb "b @ c1" c2]
  by (simp add: Let_def)

lemma readLoop_chunks:
  "readLoop pf cb (map Chunk (c # cs) @ rest) b = readLoop pf cb (Chunk (concat (c # cs)) # rest) b"
proof (induction cs arbitrary: c b)
  case Nil
  then show ?case by simp
next
  case (Cons d ds)
  have "readLoop pf cb (map Chunk (c # d # ds) @ rest) b =
        readLoop pf cb (Chunk c # Chunk (concat (d # ds)) # rest) b"
    using Cons.IH [of d] by (simp add: Let_def)
  also have "\<dots> = readLoop pf cb (Chunk (concat (c # d # ds)) # rest) b"
    by (simp only: readLoop_merge concat.simps)
  finally show ?case .
qed

lemma drainBuffer_Nil: "drainBuffer pf cb [] = ([], [])"
  by (simp add: drainBuffer_None)

lemma readLoop_chunking:
  "readLoop pf cb (map Chunk cs @ rest) [] = readLoop pf cb (Chunk (concat cs) # rest) []"
proof (cases cs)
  case Nil
  then show ?thesis by (simp add: drainBuffer_Nil)
next
  case (Cons c ds)
  then show ?thesis using readLoop_chunks [of pf cb c ds rest "[]"] by simp
qed

text \<open>
  Claim C7. The body is cut into frames at the double newline and an incomplete
  frame stays in the buffer between reads: whatever way the text of the body is
  split into successive read chunks \<open>cs\<close>, the driver makes the same calls, and so
  hands the same sequence of parsed events to the callback, as when the text
  arrives in one chunk. What follows the chunks (\<open>rest\<close>: the end of the body, a
  failure, further reads) is the same on both sides. The chunks are chunks of
  text: the decoder runs in streaming mode and hands on a character once all its
  bytes have arrived, so that the text does not depend on where the bytes were cut.
\<close>

theorem startChatStream_chunk_invariant:
  "startChatStream pf onEvent onError fetched (map Chunk cs @ rest) =
   startChatStream pf onEvent onError fetched (Chunk (concat cs) # rest)
   \<and> dispatched (startChatStream pf onEvent onError fetched (map Chunk cs @ rest)) =
     dispatched (startChatStream pf onEvent onError fetched (Chunk (concat cs) # rest))"
proof -
  have "readLoop pf onEvent (map Chunk cs @ rest) [] =
        readLoop pf onEvent (Chunk (concat cs) # rest) []"
    by (rule readLoop_chunking)
  then have "startChatStream pf onEvent onError fetched (map Chunk cs @ rest) =
             startChatStream pf onEvent onError fetched (Chunk (concat cs) # rest)"
    unfolding startChatStream_def by (simp only:)
  then show ?thesis by simp
qed

theorem startChatStream_chunk_invariant_witness:
  "startChatStream samplePlatform (Some (widgetCallback samplePlatform)) True (StreamResponse okResponse)
     (map Chunk [''data: '' @ take 10 nodeUpdateText,
                 drop 10 nodeUpdateText @ [newline],
                 [newline] @ ''data: '' @ finalText @ [newline, newline]] @ [Done])
   = [OnEvent nodeUpdateEvent, OnEvent finalEvent]"
proof -
  let ?cs = "[''data: '' @ take 10 nodeUpdateText,
              drop 10 nodeUpdateText @ [newline],
              [newline] @ ''data: '' @ finalText @ [newline, newline]]"
  have whole: "concat ?cs =
      ''data: '' @ nodeUpdateText @ [newline, newline] @ ''data: '' @ finalText @ [newline, newline]"
    by (simp add: nodeUpdateText_def)
  have one: "startChatStream samplePlatform (Some (widgetCallback samplePlatform)) True (StreamResponse okResponse)
               (Chunk (concat ?cs) # [Done]) = [OnEvent nodeUpdateEvent, OnEvent finalEvent]"
    unfolding whole
    by (simp add: startChatStream_def okResponse_def drainBuffer.simps nodeUpdateText_def
          finalText_def newline_def trim_def isWhitespace_def dispatchChunk_def
          startsWithData_def dispatchDataLine_def tryDispatch_def parseJSON_def
          samplePlatform_def sampleParse_def widgetCallback_nodeUpdateEvent widgetCallback_finalEvent Let_def)
  from startChatStream_chunk_invariant
         [of samplePlatform "Some (widgetCallback samplePlatform)" True "StreamResponse okResponse" ?cs "[Done]"]
  have "startChatStream samplePlatform (Some (widgetCallback samplePlatform)) True (StreamResponse okResponse)
          (map Chunk ?cs @ [Done]) =
        startChatStream samplePlatform (Some (widgetCallback samplePlatform)) True (StreamResponse okResponse)
          (Chunk (concat ?cs) # [Done])"
    by (rule conjunct1)
  with one show ?thesis by (simp only:)
qed

subsection \<open>Errors of a stream\<close>

lemma errorCalls_append: "errorCalls (xs @ ys) = errorCalls xs + errorCalls ys"
  by (induction xs rule: errorCalls.induct) simp_all

lemma errorCalls_dispatchChunk: "errorCalls (dispatchChunk pf cb chunk) = 0"
  by (simp add: dispatchChunk_def dispatchDataLine_def tryDispatch_def errorCalls_append
           split: option.splits sum.splits prod.splits)

lemma errorCalls_drainBuffer: "errorCalls (fst (drainBuffer pf cb b)) = 0"
proof (induction b rule: length_induct)
  case (1 b)
  show ?case
  proof (cases "indexOfSep b")
    case None
    then show ?thesis by (simp add: drainBuffer_None)
  next
    case (Some i)
    from indexOfSep_bound [OF Some] have "length (drop (i + 2) b) < length b" by simp
    with 1 have "errorCalls (fst (drainBuffer pf cb (drop (i + 2) b))) = 0" by blast
    then show ?thesis
      by (simp add: drainBuffer_Some [OF Some] errorCalls_append errorCalls_dispatchChunk)
  qed
qed

lemma errorCalls_readLoop: "errorCalls (fst (readLoop pf cb rs b)) = 0"
  by (induction pf cb rs b rule: readLoop.induct)
     (simp_all add: Let_def errorCalls_append errorCalls_drainBuffer)

lemma readLoop_failed:
  "readLoop pf cb (map Chunk cs @ ReadFailed err # rest) b =
     (fst (readLoop pf cb (map Chunk cs) b), Raised err)"
  by (induction cs arbitrary: b) (simp_all add: Let_def)

text \<open>
  Claim C4. When the stream fails, the error callback is called exactly once and is
  the last call of the run; nothing is dispatched after it, and the reads that
  would have followed (\<open>rest\<close>) are never made. The failure is the rejection of the
  fetch (a network failure or an abort before the response), a response that is not
  ok or has no body, or the rejection of a read after any number of chunks (a
  transport failure or an abort in mid-flight). The run makes one fetch and never a
  second one.
\<close>

theorem startChatStream_error_once:
  "startChatStream pf onEvent True (StreamRejected err) reads = [OnError err]
   \<and> (\<not> respOk resp \<or> \<not> respHasBody resp \<longrightarrow>
        startChatStream pf onEvent True (StreamResponse resp) reads =
          [OnError (Error (''Stream failed with status '' @ showNat (respStatus resp)))])
   \<and> (respOk resp \<and> respHasBody resp \<longrightarrow>
        startChatStream pf onEvent True (StreamResponse resp)
            (map Chunk cs @ ReadFailed err # rest) =
          fst (readLoop pf onEvent (map Chunk cs) []) @ [OnError err]
        \<and> errorCalls (fst (readLoop pf onEvent (map Chunk cs) [])) = 0
        \<and> errorCalls (startChatStream pf onEvent True (StreamResponse resp)
              (map Chunk cs @ ReadFailed err # rest)) = 1
        \<and> startChatStream pf onEvent True (StreamResponse resp)
              (map Chunk cs @ ReadFailed err # rest) =
            startChatStream pf onEvent True (StreamResponse resp)
              (map Chunk cs @ [ReadFailed err]))"
proof (intro conjI impI)
  show "startChatStream pf onEvent True (StreamRejected err) reads = [OnError err]"
    by (simp add: startChatStream_def catchRun_def)
next
  assume "\<not> respOk resp \<or> \<not> respHasBody resp"
  then show "startChatStream pf onEvent True (StreamResponse resp) reads =
          [OnError (Error (''Stream failed with status '' @ showNat (respStatus resp)))]"
    by (auto simp: startChatStream_def catchRun_def)
next
  assume ok: "respOk resp \<and> respHasBody resp"
  have run: "startChatStream pf onEvent True (StreamResponse resp)
            (map Chunk cs @ ReadFailed err # rest') =
          fst (readLoop pf onEvent (map Chunk cs) []) @ [OnError err]" for rest'
    using ok by (simp add: startChatStream_def catchRun_def readLoop_failed)
  show "startChatStream pf onEvent True (StreamResponse resp)
            (map Chunk cs @ ReadFailed err # rest) =
          fst (readLoop pf onEvent (map Chunk cs) []) @ [OnError err]"
    by (rule run)
  show "errorCalls (fst (readLoop pf onEvent (map Chunk cs) [])) = 0"
    by (rule errorCalls_readLoop)
  show "errorCalls (startChatStream pf onEvent True (StreamResponse resp)
              (map Chunk cs @ ReadFailed err # rest)) = 1"
    by (simp add: run errorCalls_append errorCalls_readLoop)
  show "startChatStream pf onEvent True (StreamResponse resp)
              (map Chunk cs @ ReadFailed err # rest) =
            startChatStream pf onEvent True (StreamResponse resp)
              (map Chunk cs @ [ReadFailed err])"
    by (simp only: run)
qed

theorem startChatStream_error_once_witness:
  "startChatStream samplePlatform (Some (widgetCallback samplePlatform)) True (StreamResponse okResponse)
     (map Chunk [''data: '' @ nodeUpdateText @ [newline, newline]]
        @ ReadFailed AbortError # [Chunk (''data: '' @ nodeUpdateText @ [newline, newline]), Done])
   = [OnEvent nodeUpdateEvent, OnError AbortError]
   \<and> startChatStream samplePlatform (Some (widgetCallback samplePlatform)) True
       (StreamResponse \<lparr>respOk = False, respStatus = 500, respHasBody = True\<rparr>) [Done]
     = [OnError (Error ''Stream failed with status 500'')]"
proof -
  let ?cs = "[''data: '' @ nodeUpdateText @ [newline, newline]]"
  let ?bad = "\<lparr>respOk = False, respStatus = 500, respHasBody = True\<rparr>"
  have ok: "respOk okResponse \<and> respHasBody okResponse" by (simp add: okResponse_def)
  have before: "fst (readLoop samplePlatform (Some (widgetCallback samplePlatform)) (map Chunk ?cs) []) =
                  [OnEvent nodeUpdateEvent]"
    by (simp add: drainBuffer.simps nodeUpdateText_def
          newline_def trim_def isWhitespace_def dispatchChunk_def
          startsWithData_def dispatchDataLine_def tryDispatch_def parseJSON_def
          samplePlatform_def sampleParse_def widgetCallback_nodeUpdateEvent widgetCallback_finalEvent Let_def)
  have bad: "\<not> respOk ?bad \<or> \<not> respHasBody ?bad" by simp
  have digits: "showNat 500 = ''500''" by code_simp
  from startChatStream_error_once
         [of samplePlatform "Some (widgetCallback samplePlatform)" AbortError "[]" okResponse ?cs
             "[Chunk (''data: '' @ nodeUpdateText @ [newline, newline]), Done]"]
       ok before
  have first: "startChatStream samplePlatform (Some (widgetCallback samplePlatform)) True (StreamResponse okResponse)
     (map Chunk ?cs @ ReadFailed AbortError #
        [Chunk (''data: '' @ nodeUpdateText @ [newline, newline]), Done])
      = [OnEvent nodeUpdateEvent, OnError AbortError]"
    by simp
  from startChatStream_error_once
         [of samplePlatform "Some (widgetCallback samplePlatform)" AbortError "[Done]" ?bad "[]" "[]"]
       bad digits
  have second: "startChatStream samplePlatform (Some (widgetCallback samplePlatform)) True (StreamResponse ?bad) [Done]
     = [OnError (Error ''Stream failed with status 500'')]"
    by simp
  from first second show ?thesis by (simp only: simp_thms)
qed

subsection \<open>Malformed frames\<close>












section \<open>Properties of the chat widget\<close>

lemma isFinal_finalEvent: "isFinal finalEvent"
  by (simp add: isFinal_def finalEvent_def optProp_def)

lemma not_isFinal_nodeUpdateEvent: "\<not> isFinal nodeUpdateEvent"
  by (simp add: isFinal_def nodeUpdateEvent_def optProp_def)







lemma onStreamEvent_messages:
  "messages (onStreamEvent pf opn sp evt st) =
     messages st @ (if isFinal evt then [aiMessage (eventData evt)] else [])"
  by (simp add: onStreamEvent_def isFinal_def Let_def split: option.splits sum.splits)

lemma deliver_messages:
  "messages (deliver pf opn sp evs st) =
     messages st @ map (\<lambda>evt. aiMessage (eventData evt)) (filter isFinal evs)"
  unfolding deliver_def
  by (induction evs arbitrary: st) (simp_all add: onStreamEvent_messages)

lemma deliver_snoc:
  "deliver pf opn sp (evs @ [evt]) st = onStreamEvent pf opn sp evt (deliver pf opn sp evs st)"
  by (simp add: deliver_def)

lemma onStreamEvent_final:
  "isFinal evt \<Longrightarrow>
     progressSteps (onStreamEvent pf opn sp evt st) = []
     \<and> \<not> isLoading (onStreamEvent pf opn sp evt st)
     \<and> \<not> isTyping (onStreamEvent pf opn sp evt st)"
  by (simp add: onStreamEvent_def isFinal_def Let_def)

text \<open>
  Claim C2, as the code has it. Every \<^verbatim>\<open>final\<close> event that reaches the callback
  appends one assistant message with its answer and clears the progress steps and
  the busy and typing flags at that moment. The callback keeps no record of an
  earlier \<^verbatim>\<open>final\<close>: the messages appended by a sequence of events are those of
  its \<^verbatim>\<open>final\<close> events, one for each. When the only \<^verbatim>\<open>final\<close> event is the last
  event delivered, exactly one assistant message is appended and the progress
  steps are empty afterwards.
\<close>

theorem final_event_appends_one_message:
  "messages (deliver pf opn sp evs st) =
     messages st @ map (\<lambda>evt. aiMessage (eventData evt)) (filter isFinal evs)
   \<and> (isFinal f \<longrightarrow>
        progressSteps (deliver pf opn sp (evs @ [f]) st) = []
        \<and> \<not> isLoading (deliver pf opn sp (evs @ [f]) st)
        \<and> \<not> isTyping (deliver pf opn sp (evs @ [f]) st))
   \<and> (isFinal f \<and> (\<forall>evt \<in> set evs. \<not> isFinal evt) \<longrightarrow>
        messages (deliver pf opn sp (evs @ [f]) st) = messages st @ [aiMessage (eventData f)])"
proof -
  have appended: "messages (deliver pf opn sp evs st) =
     messages st @ map (\<lambda>evt. aiMessage (eventData evt)) (filter isFinal evs)"
    by (rule deliver_messages)
  have cleared: "progressSteps (deliver pf opn sp (evs @ [f]) st) = []
        \<and> \<not> isLoading (deliver pf opn sp (evs @ [f]) st)
        \<and> \<not> isTyping (deliver pf opn sp (evs @ [f]) st)" if "isFinal f"
    unfolding deliver_snoc using that by (rule onStreamEvent_final)
  have single: "messages (deliver pf opn sp (evs @ [f]) st) = messages st @ [aiMessage (eventData f)]"
    if a: "isFinal f \<and> (\<forall>evt \<in> set evs. \<not> isFinal evt)"
  proof -
    from a have "filter isFinal evs = []" by (simp add: filter_empty_conv)
    with a show ?thesis by (simp add: deliver_messages)
  qed
  from appended cleared single show ?thesis by blast
qed

lemma aiMessage_finalEvent:
  "aiMessage (eventData finalEvent) =
     \<lparr>role = Assistant, content = JStr ''42 suppliers'', data_context = Some JNull,
      chart_data = Some JNull, isError = False\<rparr>"
  by (simp add: aiMessage_def eventData_def finalEvent_def jsOr_def truthyV_def
        streamedAnswerOf_def jsOrNull_def sanitizeChartData_def)

theorem final_event_appends_one_message_witness:
  "messages (deliver samplePlatform True False [nodeUpdateEvent, nodeUpdateEvent, finalEvent]
               (idleState\<lparr>isLoading := True\<rparr>)) =
     [\<lparr>role = Assistant, content = JStr ''42 suppliers'', data_context = Some JNull,
       chart_data = Some JNull, isError = False\<rparr>]
   \<and> progressSteps (deliver samplePlatform True False [nodeUpdateEvent, nodeUpdateEvent, finalEvent]
               (idleState\<lparr>isLoading := True\<rparr>)) = []"
proof -
  have hyp: "isFinal finalEvent \<and> (\<forall>evt \<in> set [nodeUpdateEvent, nodeUpdateEvent]. \<not> isFinal evt)"
    by (simp add: isFinal_finalEvent not_isFinal_nodeUpdateEvent)
  from final_event_appends_one_message
         [of samplePlatform True False "[nodeUpdateEvent, nodeUpdateEvent]"
             "idleState\<lparr>isLoading := True\<rparr>" finalEvent]
       hyp
  show ?thesis by (simp add: aiMessage_finalEvent idleState_def)
qed

text \<open>
  The claim as it is written fails: a stream that carries the \<^verbatim>\<open>final\<close> frame twice
  leaves two assistant messages in the transcript. The driver goes on reading
  after a \<^verbatim>\<open>final\<close> frame and the callback appends at each one.
\<close>

theorem final_twice_counterexample:
  "map content (messages (afterRun samplePlatform True False
      (startChatStream samplePlatform (Some (widgetCallback samplePlatform)) True (StreamResponse okResponse)
         [Chunk (''data: '' @ finalText @ [newline, newline]
                 @ ''data: '' @ finalText @ [newline, newline]), Done])
      (idleState\<lparr>isLoading := True\<rparr>)))
   = [JStr ''42 suppliers'', JStr ''42 suppliers'']"
proof -
  have run: "startChatStream samplePlatform (Some (widgetCallback samplePlatform)) True (StreamResponse okResponse)
         [Chunk (''data: '' @ finalText @ [newline, newline]
                 @ ''data: '' @ finalText @ [newline, newline]), Done]
     = [OnEvent finalEvent, OnEvent finalEvent]"
    by (simp add: startChatStream_def okResponse_def drainBuffer.simps
          finalText_def newline_def trim_def isWhitespace_def dispatchChunk_def
          startsWithData_def dispatchDataLine_def tryDispatch_def parseJSON_def
          samplePlatform_def sampleParse_def widgetCallback_nodeUpdateEvent widgetCallback_finalEvent nodeUpdateText_def Let_def)
  show ?thesis
    unfolding run
    by (simp add: afterRun_def onStreamEvent_messages isFinal_finalEvent aiMessage_finalEvent
          idleState_def)
qed

section \<open>Properties of the dashboard views\<close>
































end
